theory Spec2Isabelle
  imports Complex_Main "HOL-Library.Word"
begin

unbundle bit_operations_syntax

section \<open>The DHCPv6 client of IPConfiguration.bproj/DHCPv6Client.c\<close>

text \<open>
  The client is a C struct mutated in place by event handlers. The model is a record that
  every function takes and returns. The objects the struct only points to (its timer, the
  receive handler of its socket, the run-loop source of its callback, the generator behind
  \<^verbatim>\<open>arc4random\<close>, the kernel address table) are further fields of the same record, so
  that each effect of a handler is visible in the value it returns.

  \<^verbatim>\<open>CFAbsoluteTime\<close> and \<^verbatim>\<open>CFTimeInterval\<close> are C doubles. They are modelled as
  \<^typ>\<open>real\<close>: the rounding of double arithmetic is not part of the model. The 32-bit
  fields are \<^typ>\<open>32 word\<close>; \<^verbatim>\<open>int\<close> is \<^typ>\<open>int\<close> (no handler brings the try
  counter near its limits); bytes are \<^typ>\<open>8 word\<close>.
\<close>

subsection \<open>Wire format\<close>

type_synonym bytes = "8 word list"
type_synonym in6_addr = "128 word"
type_synonym DHCPv6Option = "nat \<times> bytes"
type_synonym DHCPv6OptionList = "DHCPv6Option list"

text \<open>Big-endian (network order) value of a byte string.\<close>

definition be_nat :: "bytes \<Rightarrow> nat" where
  "be_nat bs = foldl (\<lambda>n b. n * 256 + unat b) 0 bs"

definition get_u32 :: "bytes \<Rightarrow> nat \<Rightarrow> 32 word" where
  "get_u32 d off = word_of_nat (be_nat (take 4 (drop off d)))"

text \<open>
  Modelled from the spec: the option codes, message types and status codes live in DHCPv6.h
  and DHCPv6Options.h, which are not part of the sources at hand. The spec names them; the
  numbers are the ones RFC 3315 assigns. No result below depends on the numbers.
\<close>

definition kDHCPv6OPTION_CLIENTID :: nat where "kDHCPv6OPTION_CLIENTID = 1"
definition kDHCPv6OPTION_SERVERID :: nat where "kDHCPv6OPTION_SERVERID = 2"
definition kDHCPv6OPTION_IA_NA :: nat where "kDHCPv6OPTION_IA_NA = 3"
definition kDHCPv6OPTION_IAADDR :: nat where "kDHCPv6OPTION_IAADDR = 5"
definition kDHCPv6OPTION_PREFERENCE :: nat where "kDHCPv6OPTION_PREFERENCE = 7"
definition kDHCPv6OPTION_STATUS_CODE :: nat where "kDHCPv6OPTION_STATUS_CODE = 13"

definition kDHCPv6MessageSOLICIT :: "8 word" where "kDHCPv6MessageSOLICIT = 1"
definition kDHCPv6MessageADVERTISE :: "8 word" where "kDHCPv6MessageADVERTISE = 2"
definition kDHCPv6MessageREQUEST :: "8 word" where "kDHCPv6MessageREQUEST = 3"
definition kDHCPv6MessageCONFIRM :: "8 word" where "kDHCPv6MessageCONFIRM = 4"
definition kDHCPv6MessageRENEW :: "8 word" where "kDHCPv6MessageRENEW = 5"
definition kDHCPv6MessageREBIND :: "8 word" where "kDHCPv6MessageREBIND = 6"
definition kDHCPv6MessageREPLY :: "8 word" where "kDHCPv6MessageREPLY = 7"
definition kDHCPv6MessageRELEASE :: "8 word" where "kDHCPv6MessageRELEASE = 8"
definition kDHCPv6MessageDECLINE :: "8 word" where "kDHCPv6MessageDECLINE = 9"

definition kDHCPv6StatusCodeSuccess :: nat where "kDHCPv6StatusCodeSuccess = 0"
definition kDHCPv6StatusCodeNoAddrsAvail :: nat where "kDHCPv6StatusCodeNoAddrsAvail = 2"
definition kDHCPv6StatusCodeNotOnLink :: nat where "kDHCPv6StatusCodeNotOnLink = 4"

text \<open>
  Modelled from the spec: the sizes that follow from the layouts of section 4.3 (IA_NA is a
  4-byte IAID, 4-byte T1, 4-byte T2, then nested options; IAADDR is a 16-byte address, 4-byte
  preferred lifetime, 4-byte valid lifetime, then nested options; the packet header is one
  byte of message type and three of transaction id; an option header is a 2-byte code and a
  2-byte length), the PREFERENCE range (default 0, maximum 255) and the INFINITE sentinel.
\<close>

definition DHCPV6_PACKET_HEADER_LENGTH :: nat where "DHCPV6_PACKET_HEADER_LENGTH = 4"
definition DHCPV6_OPTION_HEADER_SIZE :: nat where "DHCPV6_OPTION_HEADER_SIZE = 4"
definition DHCPv6OptionIA_NA_MIN_LENGTH :: nat where "DHCPv6OptionIA_NA_MIN_LENGTH = 12"
definition DHCPv6OptionIAADDR_MIN_LENGTH :: nat where "DHCPv6OptionIAADDR_MIN_LENGTH = 24"
definition DHCPv6OptionPREFERENCE_MIN_LENGTH :: nat where "DHCPv6OptionPREFERENCE_MIN_LENGTH = 1"
definition DHCPv6OptionSTATUS_CODE_MIN_LENGTH :: nat where "DHCPv6OptionSTATUS_CODE_MIN_LENGTH = 2"
definition kDHCPv6OptionPREFERENCEMinValue :: "8 word" where "kDHCPv6OptionPREFERENCEMinValue = 0"
definition kDHCPv6OptionPREFERENCEMaxValue :: "8 word" where "kDHCPv6OptionPREFERENCEMaxValue = 255"
definition DHCP_INFINITE_LEASE :: "32 word" where "DHCP_INFINITE_LEASE = 0xFFFFFFFF"

definition DHCPv6OptionIA_NAGetT1 :: "bytes \<Rightarrow> 32 word" where
  "DHCPv6OptionIA_NAGetT1 ia_na = get_u32 ia_na 4"

definition DHCPv6OptionIA_NAGetT2 :: "bytes \<Rightarrow> 32 word" where
  "DHCPv6OptionIA_NAGetT2 ia_na = get_u32 ia_na 8"

definition DHCPv6OptionIAADDRGetAddress :: "bytes \<Rightarrow> in6_addr" where
  "DHCPv6OptionIAADDRGetAddress ia_addr = word_of_nat (be_nat (take 16 ia_addr))"

definition DHCPv6OptionIAADDRGetPreferredLifetime :: "bytes \<Rightarrow> 32 word" where
  "DHCPv6OptionIAADDRGetPreferredLifetime ia_addr = get_u32 ia_addr 16"

definition DHCPv6OptionIAADDRGetValidLifetime :: "bytes \<Rightarrow> 32 word" where
  "DHCPv6OptionIAADDRGetValidLifetime ia_addr = get_u32 ia_addr 20"

definition DHCPv6PacketGetMessageType :: "bytes \<Rightarrow> 8 word" where
  "DHCPv6PacketGetMessageType pkt = (case pkt of [] \<Rightarrow> 0 | b # _ \<Rightarrow> b)"

definition DHCPv6PacketGetTransactionID :: "bytes \<Rightarrow> 32 word" where
  "DHCPv6PacketGetTransactionID pkt = word_of_nat (be_nat (take 3 (drop 1 pkt)))"

text \<open>
  Modelled from the spec: the option parser of DHCPv6Options.c is absent. Section 4.3: an
  option is a 2-byte code, a 2-byte length and that many bytes of value, all big-endian; the
  parser rejects an option whose length spills past the enclosing buffer. \<open>None\<close> is the
  NULL list of a failed parse.
\<close>

function DHCPv6OptionListParse :: "bytes \<Rightarrow> DHCPv6OptionList option" where
  "DHCPv6OptionListParse buf =
     (if buf = [] then Some []
      else if length buf < 4 then None
      else if length buf - 4 < be_nat (take 2 (drop 2 buf)) then None
      else (case DHCPv6OptionListParse (drop (4 + be_nat (take 2 (drop 2 buf))) buf) of
              None \<Rightarrow> None
            | Some opts \<Rightarrow>
                Some ((be_nat (take 2 buf),
                       take (be_nat (take 2 (drop 2 buf))) (drop 4 buf)) # opts)))"
  by pat_completeness auto
termination
  by (relation "measure length") auto

declare DHCPv6OptionListParse.simps [simp del]

definition DHCPv6OptionListCreate :: "bytes \<Rightarrow> nat \<Rightarrow> DHCPv6OptionList option" where
  "DHCPv6OptionListCreate buf buf_size = DHCPv6OptionListParse (take buf_size buf)"

definition DHCPv6OptionListCreateWithPacket :: "bytes \<Rightarrow> nat \<Rightarrow> DHCPv6OptionList option" where
  "DHCPv6OptionListCreateWithPacket pkt pkt_len =
     (if pkt_len < DHCPV6_PACKET_HEADER_LENGTH then None
      else DHCPv6OptionListCreate (drop DHCPV6_PACKET_HEADER_LENGTH pkt)
             (pkt_len - DHCPV6_PACKET_HEADER_LENGTH))"

text \<open>
  Modelled from the spec: \<^verbatim>\<open>DHCPv6OptionListGetOptionDataAndLength\<close> is absent. It
  returns the value of the first option with the given code at or after the start index,
  and the index where it found it (the callers that scan pass the index back, plus one);
  \<open>None\<close> is its NULL. The length it reports is the length of the value.
\<close>

definition DHCPv6OptionListGetOptionDataAndLength ::
    "DHCPv6OptionList \<Rightarrow> nat \<Rightarrow> nat \<Rightarrow> (nat \<times> bytes) option" where
  "DHCPv6OptionListGetOptionDataAndLength opts code start_index =
     (case find (\<lambda>(i, opt). fst opt = code) (drop start_index (enumerate 0 opts)) of
        None \<Rightarrow> None
      | Some (i, opt) \<Rightarrow> Some (i, snd opt))"

text \<open>
  Modelled from the spec: \<^verbatim>\<open>DHCPv6OptionListGetStatusCode\<close> is absent. A list without
  a STATUS_CODE option has status Success; a STATUS_CODE option too short to hold its 2-byte
  code is bad data (\<open>None\<close>, the function's \<^verbatim>\<open>false\<close>).
\<close>

definition DHCPv6OptionListGetStatusCode :: "DHCPv6OptionList \<Rightarrow> nat option" where
  "DHCPv6OptionListGetStatusCode opts =
     (case DHCPv6OptionListGetOptionDataAndLength opts kDHCPv6OPTION_STATUS_CODE 0 of
        None \<Rightarrow> Some kDHCPv6StatusCodeSuccess
      | Some (_, d) \<Rightarrow>
          if length d < DHCPv6OptionSTATUS_CODE_MIN_LENGTH then None
          else Some (be_nat (take 2 d)))"

subsection \<open>Finding the usable IA_NA and IAADDR\<close>

text \<open>
  The loop of \<^verbatim>\<open>get_ia_na_addr_code\<close> over the IAADDR options of an IA_NA, started at
  \<open>start_index\<close>. \<open>None\<close> is the loop leaving \<^verbatim>\<open>*ret_ia_addr\<close> NULL.
\<close>

function ia_addr_scan :: "DHCPv6OptionList \<Rightarrow> nat \<Rightarrow> bytes option" where
  "ia_addr_scan ia_na_options start_index =
     (case DHCPv6OptionListGetOptionDataAndLength ia_na_options kDHCPv6OPTION_IAADDR start_index of
        None \<Rightarrow> None
      | Some (i, ia_addr) \<Rightarrow>
          if length ia_addr < DHCPv6OptionIAADDR_MIN_LENGTH then None
          else if DHCPv6OptionIAADDRGetValidLifetime ia_addr = 0
            then ia_addr_scan ia_na_options (i + 1)
          else if DHCPv6OptionIAADDRGetPreferredLifetime ia_addr
                    > DHCPv6OptionIAADDRGetValidLifetime ia_addr then None
          else Some ia_addr)"
  by pat_completeness auto
termination
proof (relation "measure (\<lambda>(opts, i). length opts - i)", goal_cases)
  case 1
  show ?case by simp
next
  case (2 ia_na_options start_index x2 i ia_addr)
  from 2 have "start_index \<le> i \<and> i < length ia_na_options"
    by (auto simp: DHCPv6OptionListGetOptionDataAndLength_def find_Some_iff nth_enumerate_eq
             split: option.splits)
  then show ?case by (simp, arith)
qed

declare ia_addr_scan.simps [simp del]

text \<open>
  \<^verbatim>\<open>get_ia_na_addr_code\<close> returns the IA_NA (NULL when unusable), the IAADDR through
  \<^verbatim>\<open>ret_ia_addr\<close> and the status code of the IA_NA through \<^verbatim>\<open>ret_code\<close>. The two
  references are modelled by the option values they point to. The client and the message
  type are used for logging only.
\<close>

definition get_ia_na_addr_code ::
    "DHCPv6OptionList \<Rightarrow> bytes option \<times> bytes option \<times> nat" where
  "get_ia_na_addr_code options =
     (case DHCPv6OptionListGetOptionDataAndLength options kDHCPv6OPTION_IA_NA 0 of
        None \<Rightarrow> (None, None, kDHCPv6StatusCodeSuccess)
      | Some (_, ia_na) \<Rightarrow>
          if length ia_na \<le> DHCPv6OptionIA_NA_MIN_LENGTH
            then (None, None, kDHCPv6StatusCodeSuccess)
          else if DHCPv6OptionIA_NAGetT1 ia_na \<noteq> 0 \<and> DHCPv6OptionIA_NAGetT2 ia_na \<noteq> 0
                  \<and> DHCPv6OptionIA_NAGetT1 ia_na > DHCPv6OptionIA_NAGetT2 ia_na
            then (None, None, kDHCPv6StatusCodeSuccess)
          else
            (case DHCPv6OptionListCreate (drop DHCPv6OptionIA_NA_MIN_LENGTH ia_na)
                    (length ia_na - DHCPv6OptionIA_NA_MIN_LENGTH) of
               None \<Rightarrow> (None, None, kDHCPv6StatusCodeSuccess)
             | Some ia_na_options \<Rightarrow>
                 (case DHCPv6OptionListGetStatusCode ia_na_options of
                    None \<Rightarrow> (None, None, kDHCPv6StatusCodeSuccess)
                  | Some code \<Rightarrow>
                      (case ia_addr_scan ia_na_options 0 of
                         None \<Rightarrow> (None, None, code)
                       | Some ia_addr \<Rightarrow> (Some ia_na, Some ia_addr, code)))))"

definition get_ia_na_addr :: "DHCPv6OptionList \<Rightarrow> bytes option \<times> bytes option" where
  "get_ia_na_addr options =
     (case get_ia_na_addr_code options of (ia_na, ia_addr, _) \<Rightarrow> (ia_na, ia_addr))"

definition get_preference_value_from_options :: "DHCPv6OptionList \<Rightarrow> 8 word" where
  "get_preference_value_from_options options =
     (case DHCPv6OptionListGetOptionDataAndLength options kDHCPv6OPTION_PREFERENCE 0 of
        None \<Rightarrow> kDHCPv6OptionPREFERENCEMinValue
      | Some (_, pref) \<Rightarrow>
          if length pref \<ge> DHCPv6OptionPREFERENCE_MIN_LENGTH
          then (case pref of [] \<Rightarrow> kDHCPv6OptionPREFERENCEMinValue | v # _ \<Rightarrow> v)
          else kDHCPv6OptionPREFERENCEMinValue)"

subsection \<open>The client, its lease and its surroundings\<close>

datatype DHCPv6ClientState =
    kDHCPv6ClientStateInactive
  | kDHCPv6ClientStateSolicit
  | kDHCPv6ClientStateRequest
  | kDHCPv6ClientStateBound
  | kDHCPv6ClientStateRenew
  | kDHCPv6ClientStateRebind
  | kDHCPv6ClientStateConfirm
  | kDHCPv6ClientStateRelease
  | kDHCPv6ClientStateUnbound
  | kDHCPv6ClientStateDecline
  | kDHCPv6ClientStateInform
  | kDHCPv6ClientStateInformComplete

datatype DHCPv6ClientMode =
    kDHCPv6ClientModeIdle
  | kDHCPv6ClientModeStateless
  | kDHCPv6ClientModeStateful

datatype IFEventID = IFEventID_start_e | IFEventID_timeout_e | IFEventID_data_e

text \<open>The handler functions that a timer or the socket can be armed with.\<close>

datatype handler =
    Func_Inform | Func_Decline | Func_RenewRebind | Func_Confirm | Func_Request | Func_Solicit


record lease_info_t =
  lease_start :: real
  lease_t1 :: "32 word"
  lease_t2 :: "32 word"
  lease_valid_lifetime :: "32 word"
  lease_preferred_lifetime :: "32 word"
  lease_valid :: bool
  lease_ssid :: "string option"

text \<open>What the kernel is asked to do: \<^verbatim>\<open>inet6_difaddr\<close> and \<^verbatim>\<open>inet6_aifaddr\<close>.\<close>

datatype kernel_op =
    Difaddr in6_addr
  | Aifaddr in6_addr int "32 word" "32 word"

record DHCPv6Client =
  our_ip :: in6_addr
  our_prefix_length :: int
  mode :: DHCPv6ClientMode
  cstate :: DHCPv6ClientState
  transaction_id :: "32 word"
  try_count :: int
  start_time :: real
  retransmit_time :: real
  saved_pkt :: "bytes option"
  saved_pkt_len :: nat
  saved_options :: "DHCPv6OptionList option"
  saved_verified :: bool
  server_id :: "bytes option"
  ia_na :: "bytes option"
  ia_addr :: "bytes option"
  lease :: lease_info_t
  private_address :: bool
  duid :: "bytes option"
  renew_rebind_time :: real
  callback_rls :: bool
  signalled :: bool
  symptoms :: nat
  timer :: "(real \<times> handler \<times> IFEventID) option"
  receive :: "handler option"
  arc4random_calls :: nat
  transmitted :: "8 word list"
  kernel :: "kernel_op list"

text \<open>
  \<open>try_count\<close> is the field \<^verbatim>\<open>try\<close>. \<open>callback_rls\<close> says whether the run-loop source
  exists and \<open>signalled\<close> whether it has been signalled; \<open>symptoms\<close> counts the direct
  calls of the callback. \<open>timer\<close> is the pending callout (delay, function, event); arming
  it replaces what was pending. \<open>receive\<close> is the function the socket delivers to.
  \<open>transmitted\<close> lists the message types handed to the socket: the bytes of outbound
  packets are not modelled.
\<close>

record inet6_addrinfo_t =
  addr :: in6_addr
  addr_duplicated :: bool
  addr_tentative :: bool

datatype link_info = kLinkInfoNone | kLinkInfoNetworkChanged | kLinkInfoBSSIDChanged

record link_event_data =
  link_valid :: bool
  link_active :: bool
  wake_on_same_network :: bool
  info :: link_info

text \<open>
  Everything a handler reads from outside the client: the clock, the values
  \<^verbatim>\<open>arc4random\<close> returns (by call number), the interface, the service, the DUIDs, the
  kernel's answers, and the constants of headers that are not at hand (the RFC 3315
  transmission parameters of DHCPv6.h, \<^verbatim>\<open>G_wake_skew_secs\<close>, the DUID validity test).
\<close>

record env =
  current_time :: real
  arc4random :: "nat \<Rightarrow> 32 word"
  if_link_valid :: bool
  if_link_active :: bool
  if_is_wireless :: bool
  if_is_cellular :: bool
  ServiceGetSSID :: "string option"
  DHCPDUIDCopy :: "bytes option"
  DHCPDUIDEstablishAndGet :: "bytes option"
  DHCPDUIDIsValid :: "bytes \<Rightarrow> bool"
  inet6_dgram_socket_ok :: bool
  inet6_aifaddr_ok :: bool
  inet6_get_prefix_length :: int
  inet6_addrlist :: "inet6_addrinfo_t list"
  G_wake_skew_secs :: int
  DHCPv6_SOL_MAX_DELAY :: real
  DHCPv6_SOL_TIMEOUT :: real
  DHCPv6_SOL_MAX_RT :: real
  DHCPv6_REQ_TIMEOUT :: real
  DHCPv6_REQ_MAX_RT :: real
  DHCPv6_REQ_MAX_RC :: int
  DHCPv6_CNF_MAX_DELAY :: real
  DHCPv6_CNF_TIMEOUT :: real
  DHCPv6_CNF_MAX_RT :: real
  DHCPv6_CNF_MAX_RD :: real
  DHCPv6_REN_TIMEOUT :: real
  DHCPv6_REN_MAX_RT :: real
  DHCPv6_REB_TIMEOUT :: real
  DHCPv6_REB_MAX_RT :: real
  DHCPv6_INF_MAX_DELAY :: real
  DHCPv6_INF_TIMEOUT :: real
  DHCPv6_INF_MAX_RT :: real
  DHCPv6_DEC_TIMEOUT :: real
  DHCPv6_DEC_MAX_RC :: int

text \<open>A received message as the socket hands it over: the bytes and their parsed options.\<close>

record DHCPv6SocketReceiveData =
  rd_pkt :: bytes
  rd_options :: DHCPv6OptionList

subsection \<open>Randomness and the retransmission engine\<close>

definition arc4random_next :: "env \<Rightarrow> DHCPv6Client \<Rightarrow> 32 word \<times> DHCPv6Client" where
  "arc4random_next e c =
     (arc4random e (arc4random_calls c), c\<lparr>arc4random_calls := arc4random_calls c + 1\<rparr>)"

definition UINT32_MAX :: real where "UINT32_MAX = 4294967295"

definition random_double_in_range ::
    "env \<Rightarrow> DHCPv6Client \<Rightarrow> real \<Rightarrow> real \<Rightarrow> real \<times> DHCPv6Client" where
  "random_double_in_range e c bottom top' =
     (case arc4random_next e c of
        (r, c') \<Rightarrow> (bottom + (top' - bottom) * (real (unat r) / UINT32_MAX), c'))"

definition LOWER_24_BITS :: "32 word" where "LOWER_24_BITS = 0x00ffffff"

definition get_new_transaction_id :: "env \<Rightarrow> DHCPv6Client \<Rightarrow> 32 word \<times> DHCPv6Client" where
  "get_new_transaction_id e c =
     (case arc4random_next e c of (r, c') \<Rightarrow> (r AND LOWER_24_BITS, c'))"

definition DHCPv6_RAND :: "env \<Rightarrow> DHCPv6Client \<Rightarrow> real \<times> DHCPv6Client" where
  "DHCPv6_RAND e c = random_double_in_range e c (- 0.1) 0.1"

definition DHCPv6SubsequentTimeout ::
    "env \<Rightarrow> DHCPv6Client \<Rightarrow> real \<Rightarrow> real \<Rightarrow> real \<times> DHCPv6Client" where
  "DHCPv6SubsequentTimeout e c RTprev MRT =
     (case DHCPv6_RAND e c of
        (u, c1) \<Rightarrow>
          if MRT \<noteq> 0 \<and> 2 * RTprev + u * RTprev > MRT
          then (case DHCPv6_RAND e c1 of (u', c2) \<Rightarrow> (MRT + u' * MRT, c2))
          else (2 * RTprev + u * RTprev, c1))"

definition DHCPv6InitialTimeout :: "env \<Rightarrow> DHCPv6Client \<Rightarrow> real \<Rightarrow> real \<times> DHCPv6Client" where
  "DHCPv6InitialTimeout e c IRT = (case DHCPv6_RAND e c of (u, c') \<Rightarrow> (IRT + u * IRT, c'))"

definition DHCPv6ClientClearRetransmit :: "DHCPv6Client \<Rightarrow> DHCPv6Client" where
  "DHCPv6ClientClearRetransmit c = c\<lparr>try_count := 0\<rparr>"

definition DHCPv6ClientNextRetransmit ::
    "env \<Rightarrow> DHCPv6Client \<Rightarrow> real \<Rightarrow> real \<Rightarrow> real \<times> DHCPv6Client" where
  "DHCPv6ClientNextRetransmit e c IRT MRT =
     (let c1 = c\<lparr>try_count := try_count c + 1\<rparr>
      in case (if try_count c1 = 1 then DHCPv6InitialTimeout e c1 IRT
               else DHCPv6SubsequentTimeout e c1 (retransmit_time c1) MRT) of
           (RT, c2) \<Rightarrow> (RT, c2\<lparr>retransmit_time := RT\<rparr>))"

text \<open>
  The cast \<^verbatim>\<open>(uint32_t)\<close> of a double truncates towards zero. C leaves the cast
  undefined when the value does not fit; the model wraps.
\<close>

definition uint32_of_double :: "real \<Rightarrow> 32 word" where
  "uint32_of_double x = word_of_int (if 0 \<le> x then \<lfloor>x\<rfloor> else \<lceil>x\<rceil>)"

definition double_of_uint32 :: "32 word \<Rightarrow> real" where
  "double_of_uint32 w = real (unat w)"

subsection \<open>Small operations on the client\<close>

definition DHCPv6ClientSetSSID :: "DHCPv6Client \<Rightarrow> string option \<Rightarrow> DHCPv6Client" where
  "DHCPv6ClientSetSSID c ssid = c\<lparr>lease := (lease c)\<lparr>lease_ssid := ssid\<rparr>\<rparr>"

text \<open>
  \<^verbatim>\<open>DHCPv6ClientGetDUID\<close> fills the client's own DUID on first use when private
  addressing is on; otherwise it returns the process-wide DUID.
\<close>

definition DHCPv6ClientGetDUID :: "env \<Rightarrow> DHCPv6Client \<Rightarrow> bytes option \<times> DHCPv6Client" where
  "DHCPv6ClientGetDUID e c =
     (if private_address c
      then (if duid c = None
            then (DHCPDUIDCopy e, c\<lparr>duid := DHCPDUIDCopy e\<rparr>)
            else (duid c, c))
      else (DHCPDUIDEstablishAndGet e, c))"

text \<open>
  \<^verbatim>\<open>S_duid_matches\<close>: the CLIENTID of the message equals our DUID byte for byte. With no
  DUID at hand the C code would read through a NULL reference; the model answers no match.
\<close>

definition S_duid_matches :: "env \<Rightarrow> DHCPv6Client \<Rightarrow> DHCPv6OptionList \<Rightarrow> bool \<times> DHCPv6Client" where
  "S_duid_matches e c options =
     (case DHCPv6ClientGetDUID e c of
        (data, c') \<Rightarrow>
          (case DHCPv6OptionListGetOptionDataAndLength options kDHCPv6OPTION_CLIENTID 0 of
             None \<Rightarrow> (False, c')
           | Some (_, d) \<Rightarrow>
               (case data of
                  None \<Rightarrow> (False, c')
                | Some ours \<Rightarrow>
                    if length ours \<noteq> length d \<or> d \<noteq> ours then (False, c') else (True, c'))))"

definition DHCPv6ClientSetState :: "DHCPv6Client \<Rightarrow> DHCPv6ClientState \<Rightarrow> DHCPv6Client" where
  "DHCPv6ClientSetState c s = c\<lparr>cstate := s\<rparr>"

definition DHCPv6ClientRemoveAddress :: "env \<Rightarrow> DHCPv6Client \<Rightarrow> DHCPv6Client" where
  "DHCPv6ClientRemoveAddress e c =
     (if our_ip c = 0 then c
      else c\<lparr>kernel := kernel c @ (if inet6_dgram_socket_ok e then [Difaddr (our_ip c)] else []),
             our_ip := 0, our_prefix_length := 0\<rparr>)"

definition DHCPv6ClientPostNotification :: "DHCPv6Client \<Rightarrow> DHCPv6Client" where
  "DHCPv6ClientPostNotification c = (if callback_rls c then c\<lparr>signalled := True\<rparr> else c)"

definition DHCPv6ClientCancelPendingEvents :: "DHCPv6Client \<Rightarrow> DHCPv6Client" where
  "DHCPv6ClientCancelPendingEvents c = c\<lparr>receive := None, timer := None\<rparr>"

definition DHCPv6SocketEnableReceive :: "DHCPv6Client \<Rightarrow> handler \<Rightarrow> DHCPv6Client" where
  "DHCPv6SocketEnableReceive c f = c\<lparr>receive := Some f\<rparr>"

definition timer_callout_set ::
    "DHCPv6Client \<Rightarrow> real \<Rightarrow> handler \<Rightarrow> IFEventID \<Rightarrow> DHCPv6Client" where
  "timer_callout_set c delay f ev = c\<lparr>timer := Some (delay, f, ev)\<rparr>"

definition zero_lease :: lease_info_t where
  "zero_lease = \<lparr>lease_start = 0, lease_t1 = 0, lease_t2 = 0, lease_valid_lifetime = 0,
                 lease_preferred_lifetime = 0, lease_valid = False, lease_ssid = None\<rparr>"

definition DHCPv6ClientClearLease :: "DHCPv6Client \<Rightarrow> DHCPv6Client" where
  "DHCPv6ClientClearLease c = (DHCPv6ClientSetSSID c None)\<lparr>lease := zero_lease\<rparr>"

definition DHCPv6ClientClearPacket :: "DHCPv6Client \<Rightarrow> DHCPv6Client" where
  "DHCPv6ClientClearPacket c =
     (DHCPv6ClientClearLease c)\<lparr>saved_pkt := None, saved_options := None, server_id := None,
        ia_na := None, ia_addr := None, saved_verified := False, saved_pkt_len := 0\<rparr>"

definition DHCPv6ClientInactive :: "env \<Rightarrow> DHCPv6Client \<Rightarrow> DHCPv6Client" where
  "DHCPv6ClientInactive e c =
     DHCPv6ClientPostNotification
       (DHCPv6ClientRemoveAddress e
          (DHCPv6ClientClearPacket (DHCPv6ClientCancelPendingEvents c)))"


text \<open>
  \<^verbatim>\<open>DHCPv6ClientLeaseStillValid\<close> returns the lease's valid flag, after dropping the saved
  packet and the lease when the clock is before the lease's start or the lease has run out.
\<close>

definition DHCPv6ClientLeaseStillValid ::
    "DHCPv6Client \<Rightarrow> real \<Rightarrow> bool \<times> DHCPv6Client" where
  "DHCPv6ClientLeaseStillValid c current_time' =
     (if \<not> lease_valid (lease c) then (lease_valid (lease c), c)
      else if lease_valid_lifetime (lease c) = DHCP_INFINITE_LEASE then (lease_valid (lease c), c)
      else if current_time' < lease_start (lease c)
        then (let c1 = DHCPv6ClientClearPacket c;
                  c2 = c1\<lparr>lease := (lease c1)\<lparr>lease_valid := False\<rparr>\<rparr>
              in (lease_valid (lease c2), c2))
      else if current_time' - lease_start (lease c)
                \<ge> double_of_uint32 (lease_valid_lifetime (lease c))
        then (let c1 = DHCPv6ClientClearPacket c;
                  c2 = c1\<lparr>lease := (lease c1)\<lparr>lease_valid := False\<rparr>\<rparr>
              in (lease_valid (lease c2), c2))
      else (lease_valid (lease c), c))"

subsection \<open>Saving a packet\<close>

text \<open>
  The lease computation in the body of \<^verbatim>\<open>DHCPv6ClientSavePacket\<close>, from the T1 and T2 of
  the IA_NA and the lifetimes of the IAADDR. \<^verbatim>\<open>preferred_lifetime * 0.5\<close> and
  \<^verbatim>\<open>* 0.8\<close> are double products assigned to a \<^verbatim>\<open>uint32_t\<close>.
\<close>

definition SavePacket_lease ::
    "real \<Rightarrow> lease_info_t \<Rightarrow> 32 word \<Rightarrow> 32 word \<Rightarrow> 32 word \<Rightarrow> 32 word \<Rightarrow> lease_info_t" where
  "SavePacket_lease current_time' lease_p t1_in t2_in valid_in preferred_in =
     (let preferred0 = (if preferred_in = 0 then valid_in else preferred_in);
          (t1, t2, preferred_lifetime, valid_lifetime) =
            (if t1_in = 0 \<or> t2_in = 0
             then (if preferred0 = DHCP_INFINITE_LEASE then (0, 0, preferred0, valid_in)
                   else (uint32_of_double (double_of_uint32 preferred0 * 0.5),
                         uint32_of_double (double_of_uint32 preferred0 * 0.8),
                         preferred0, valid_in))
             else if t1_in = DHCP_INFINITE_LEASE \<or> t2_in = DHCP_INFINITE_LEASE
             then (0, 0, DHCP_INFINITE_LEASE, DHCP_INFINITE_LEASE)
             else (t1_in, t2_in, preferred0, valid_in))
      in if valid_lifetime = DHCP_INFINITE_LEASE
         then lease_p\<lparr>lease_start := current_time', lease_t1 := 0, lease_t2 := 0,
                      lease_preferred_lifetime := DHCP_INFINITE_LEASE,
                      lease_valid_lifetime := valid_lifetime\<rparr>
         else lease_p\<lparr>lease_start := current_time', lease_t1 := t1, lease_t2 := t2,
                      lease_preferred_lifetime := preferred_lifetime,
                      lease_valid_lifetime := valid_lifetime\<rparr>)"

text \<open>
  A saved option list that failed to parse is NULL; the lookups in it are modelled as
  finding nothing.
\<close>

definition DHCPv6ClientSavePacket ::
    "env \<Rightarrow> DHCPv6Client \<Rightarrow> DHCPv6SocketReceiveData \<Rightarrow> DHCPv6Client" where
  "DHCPv6ClientSavePacket e c data =
     (let c1 = DHCPv6ClientClearPacket c;
          c2 = DHCPv6ClientSetSSID c1 (ServiceGetSSID e);
          c3 = c2\<lparr>saved_pkt_len := length (rd_pkt data),
                  saved_pkt := Some (rd_pkt data),
                  saved_options :=
                    DHCPv6OptionListCreateWithPacket (rd_pkt data) (length (rd_pkt data))\<rparr>;
          options = (case saved_options c3 of None \<Rightarrow> [] | Some l \<Rightarrow> l);
          c4 = c3\<lparr>server_id :=
                    map_option snd
                      (DHCPv6OptionListGetOptionDataAndLength options kDHCPv6OPTION_SERVERID 0)\<rparr>;
          c5 = c4\<lparr>ia_na := fst (get_ia_na_addr options),
                  ia_addr := snd (get_ia_na_addr options)\<rparr>;
          c6 = (case (ia_na c5, ia_addr c5) of
                  (Some na, Some ad) \<Rightarrow>
                    c5\<lparr>lease := SavePacket_lease (current_time e) (lease c5)
                                  (DHCPv6OptionIA_NAGetT1 na) (DHCPv6OptionIA_NAGetT2 na)
                                  (DHCPv6OptionIAADDRGetValidLifetime ad)
                                  (DHCPv6OptionIAADDRGetPreferredLifetime ad)\<rparr>
                | _ \<Rightarrow> c5)
      in c6\<lparr>saved_verified := True\<rparr>)"

subsection \<open>Transmitting\<close>

text \<open>
  \<^verbatim>\<open>DHCPv6ClientMakePacket\<close> fails without a DUID. A failure to fit an option into the
  1500-byte buffer is not modelled.
\<close>

definition DHCPv6ClientMakePacket :: "env \<Rightarrow> DHCPv6Client \<Rightarrow> bool \<times> DHCPv6Client" where
  "DHCPv6ClientMakePacket e c =
     (case DHCPv6ClientGetDUID e c of (data, c') \<Rightarrow> (data \<noteq> None, c'))"

definition DHCPv6SocketTransmit :: "DHCPv6Client \<Rightarrow> 8 word \<Rightarrow> DHCPv6Client" where
  "DHCPv6SocketTransmit c message_type = c\<lparr>transmitted := transmitted c @ [message_type]\<rparr>"


definition DHCPv6ClientSendSolicit :: "env \<Rightarrow> DHCPv6Client \<Rightarrow> DHCPv6Client" where
  "DHCPv6ClientSendSolicit e c =
     (case DHCPv6ClientMakePacket e c of
        (ok, c') \<Rightarrow> if \<not> ok then c' else DHCPv6SocketTransmit c' kDHCPv6MessageSOLICIT)"

definition SendPacket_message_type :: "DHCPv6ClientState \<Rightarrow> 8 word option" where
  "SendPacket_message_type s =
     (case s of
        kDHCPv6ClientStateRequest \<Rightarrow> Some kDHCPv6MessageREQUEST
      | kDHCPv6ClientStateRenew \<Rightarrow> Some kDHCPv6MessageRENEW
      | kDHCPv6ClientStateRebind \<Rightarrow> Some kDHCPv6MessageREBIND
      | kDHCPv6ClientStateRelease \<Rightarrow> Some kDHCPv6MessageRELEASE
      | kDHCPv6ClientStateConfirm \<Rightarrow> Some kDHCPv6MessageCONFIRM
      | kDHCPv6ClientStateDecline \<Rightarrow> Some kDHCPv6MessageDECLINE
      | _ \<Rightarrow> None)"

definition DHCPv6ClientSendPacket :: "env \<Rightarrow> DHCPv6Client \<Rightarrow> DHCPv6Client" where
  "DHCPv6ClientSendPacket e c =
     (if ia_na c = None \<or> server_id c = None then c
      else (case SendPacket_message_type (cstate c) of
              None \<Rightarrow> c
            | Some message_type \<Rightarrow>
                (case DHCPv6ClientMakePacket e c of
                   (ok, c') \<Rightarrow> if \<not> ok then c' else DHCPv6SocketTransmit c' message_type)))"

subsection \<open>The event handlers\<close>

text \<open>
  Each C handler is one function with a \<^verbatim>\<open>switch\<close> on the event. The handlers call each
  other's start case, so the model has one definition per handler and event, in the order
  of their calls; a start case that falls through into the timeout case calls it.
\<close>

definition DHCPv6Client_Solicit_start :: "env \<Rightarrow> DHCPv6Client \<Rightarrow> DHCPv6Client" where
  "DHCPv6Client_Solicit_start e c =
     (let c1 = DHCPv6ClientSetState c kDHCPv6ClientStateSolicit;
          c2 = DHCPv6ClientClearRetransmit c1;
          c3 = DHCPv6ClientClearPacket c2;
          (xid, c4) = get_new_transaction_id e c3;
          c5 = c4\<lparr>transaction_id := xid\<rparr>;
          c6 = DHCPv6SocketEnableReceive c5 Func_Solicit;
          (delay, c7) = random_double_in_range e c6 0 (DHCPv6_SOL_MAX_DELAY e)
      in timer_callout_set c7 delay Func_Solicit IFEventID_timeout_e)"

definition DHCPv6Client_Request_timeout :: "env \<Rightarrow> DHCPv6Client \<Rightarrow> DHCPv6Client" where
  "DHCPv6Client_Request_timeout e c =
     (if try_count c \<ge> DHCPv6_REQ_MAX_RC e then DHCPv6Client_Solicit_start e c
      else (let (rt, c1) = DHCPv6ClientNextRetransmit e c (DHCPv6_REQ_TIMEOUT e)
                             (DHCPv6_REQ_MAX_RT e);
                c2 = timer_callout_set c1 rt Func_Request IFEventID_timeout_e
            in DHCPv6ClientSendPacket e c2))"

definition DHCPv6Client_Request_start :: "env \<Rightarrow> DHCPv6Client \<Rightarrow> DHCPv6Client" where
  "DHCPv6Client_Request_start e c =
     (let c1 = DHCPv6ClientSetState c kDHCPv6ClientStateRequest;
          c2 = DHCPv6ClientClearRetransmit c1;
          (xid, c3) = get_new_transaction_id e c2;
          c4 = c3\<lparr>transaction_id := xid, start_time := current_time e\<rparr>;
          c5 = DHCPv6SocketEnableReceive c4 Func_Request
      in DHCPv6Client_Request_timeout e c5)"

definition GENERATE_SYMPTOM_AT_TRY :: int where "GENERATE_SYMPTOM_AT_TRY = 6"

definition DHCPv6Client_Solicit_timeout :: "env \<Rightarrow> DHCPv6Client \<Rightarrow> DHCPv6Client" where
  "DHCPv6Client_Solicit_timeout e c =
     (if try_count c \<noteq> 0 \<and> if_link_valid e \<and> \<not> if_link_active e
      then DHCPv6ClientInactive e c
      else (let c1 = (if try_count c = 0 then c\<lparr>start_time := current_time e\<rparr> else c)
            in if saved_pkt_len c1 \<noteq> 0 then DHCPv6Client_Request_start e c1
               else (let (rt, c2) = DHCPv6ClientNextRetransmit e c1 (DHCPv6_SOL_TIMEOUT e)
                                      (DHCPv6_SOL_MAX_RT e);
                         c3 = timer_callout_set c2 rt Func_Solicit IFEventID_timeout_e;
                         c4 = DHCPv6ClientSendSolicit e c3
                     in if try_count c4 \<ge> GENERATE_SYMPTOM_AT_TRY
                        then c4\<lparr>symptoms := symptoms c4 + 1\<rparr> else c4)))"

definition DHCPv6Client_Solicit_data ::
    "env \<Rightarrow> DHCPv6Client \<Rightarrow> DHCPv6SocketReceiveData \<Rightarrow> DHCPv6Client" where
  "DHCPv6Client_Solicit_data e c data =
     (if DHCPv6PacketGetMessageType (rd_pkt data) \<noteq> kDHCPv6MessageADVERTISE
         \<or> DHCPv6PacketGetTransactionID (rd_pkt data) \<noteq> transaction_id c then c
      else (let (matches, c1) = S_duid_matches e c (rd_options data)
            in if \<not> matches then c1
               else (case DHCPv6OptionListGetOptionDataAndLength (rd_options data)
                            kDHCPv6OPTION_SERVERID 0 of
                       None \<Rightarrow> c1
                     | Some (_, server_id') \<Rightarrow>
                         if \<not> DHCPDUIDIsValid e server_id' then c1
                         else (case DHCPv6OptionListGetStatusCode (rd_options data) of
                                 None \<Rightarrow> c1
                               | Some code \<Rightarrow>
                                   if code = kDHCPv6StatusCodeNoAddrsAvail then c1
                                   else if fst (get_ia_na_addr (rd_options data)) = None then c1
                                   else (let pref = get_preference_value_from_options
                                                      (rd_options data)
                                         in if (case saved_options c1 of
                                                  None \<Rightarrow> False
                                                | Some saved \<Rightarrow>
                                                    get_preference_value_from_options saved
                                                      \<ge> pref)
                                            then c1
                                            else (let c2 = DHCPv6ClientSavePacket e c1 data
                                                  in if try_count c2 > 1
                                                        \<or> pref = kDHCPv6OptionPREFERENCEMaxValue
                                                     then DHCPv6Client_Request_start e c2
                                                     else c2))))))"

definition DHCPv6Client_Unbound_start :: "env \<Rightarrow> DHCPv6Client \<Rightarrow> DHCPv6Client" where
  "DHCPv6Client_Unbound_start e c =
     (let c1 = DHCPv6ClientSetState c kDHCPv6ClientStateUnbound;
          c2 = DHCPv6ClientCancelPendingEvents c1;
          c3 = DHCPv6ClientRemoveAddress e c2;
          c4 = DHCPv6ClientClearPacket c3;
          c5 = DHCPv6ClientPostNotification c4
      in DHCPv6Client_Solicit_start e c5)"

definition DHCPv6Client_Decline_timeout :: "env \<Rightarrow> DHCPv6Client \<Rightarrow> DHCPv6Client" where
  "DHCPv6Client_Decline_timeout e c =
     (if try_count c \<ge> DHCPv6_DEC_MAX_RC e then DHCPv6Client_Solicit_start e c
      else (let (rt, c1) = DHCPv6ClientNextRetransmit e c (DHCPv6_DEC_TIMEOUT e) 0;
                c2 = timer_callout_set c1 rt Func_Decline IFEventID_timeout_e
            in DHCPv6ClientSendPacket e c2))"

definition DHCPv6Client_Decline_start :: "env \<Rightarrow> DHCPv6Client \<Rightarrow> DHCPv6Client" where
  "DHCPv6Client_Decline_start e c =
     (let c1 = DHCPv6ClientSetState c kDHCPv6ClientStateDecline;
          c2 = DHCPv6ClientRemoveAddress e c1;
          c3 = DHCPv6ClientCancelPendingEvents c2;
          c4 = (DHCPv6ClientClearLease c3)\<lparr>saved_verified := False\<rparr>;
          c5 = DHCPv6ClientPostNotification c4;
          c6 = DHCPv6ClientClearRetransmit c5;
          (xid, c7) = get_new_transaction_id e c6;
          c8 = DHCPv6SocketEnableReceive (c7\<lparr>transaction_id := xid\<rparr>) Func_Decline
      in DHCPv6Client_Decline_timeout e c8)"

definition DHCPv6Client_Decline_data ::
    "env \<Rightarrow> DHCPv6Client \<Rightarrow> DHCPv6SocketReceiveData \<Rightarrow> DHCPv6Client" where
  "DHCPv6Client_Decline_data e c data =
     (if DHCPv6PacketGetMessageType (rd_pkt data) \<noteq> kDHCPv6MessageREPLY
         \<or> DHCPv6PacketGetTransactionID (rd_pkt data) \<noteq> transaction_id c then c
      else (let (matches, c1) = S_duid_matches e c (rd_options data)
            in if \<not> matches then c1
               else (case DHCPv6OptionListGetOptionDataAndLength (rd_options data)
                            kDHCPv6OPTION_SERVERID 0 of
                       None \<Rightarrow> c1
                     | Some (_, server_id') \<Rightarrow>
                         if \<not> DHCPDUIDIsValid e server_id' then c1
                         else DHCPv6Client_Solicit_start e c1)))"

text \<open>
  The timer that enters Renew, set in two places with the same code: T1 less the time
  since the lease started, or 10 seconds when T1 has passed.
\<close>

definition renew_timer_delay :: "DHCPv6Client \<Rightarrow> real \<Rightarrow> 32 word" where
  "renew_timer_delay c time_since_start =
     (if uint32_of_double time_since_start < lease_t1 (lease c)
      then lease_t1 (lease c) - uint32_of_double time_since_start
      else 10)"

definition DHCPv6ClientHandleAddressChanged ::
    "env \<Rightarrow> DHCPv6Client \<Rightarrow> inet6_addrinfo_t list \<Rightarrow> DHCPv6Client" where
  "DHCPv6ClientHandleAddressChanged e c addr_list =
     (if addr_list = [] then c
      else if cstate c \<noteq> kDHCPv6ClientStateBound then c
      else (case find (\<lambda>scan. our_ip c = addr scan) addr_list of
              None \<Rightarrow> c
            | Some scan \<Rightarrow>
                if addr_duplicated scan then DHCPv6Client_Decline_start e c
                else if addr_tentative scan then c
                else (let c1 = DHCPv6ClientPostNotification c;
                          c2 = DHCPv6ClientCancelPendingEvents c1
                      in if lease_valid_lifetime (lease c2) \<noteq> DHCP_INFINITE_LEASE
                         then (if current_time e < lease_start (lease c2)
                               then DHCPv6Client_Unbound_start e c2
                               else (let t1 = renew_timer_delay c2
                                                (current_time e - lease_start (lease c2));
                                         c3 = c2\<lparr>renew_rebind_time :=
                                                   current_time e + double_of_uint32 t1\<rparr>
                                     in timer_callout_set c3 (double_of_uint32 t1)
                                          Func_RenewRebind IFEventID_start_e))
                         else c2)))"

definition S_get_prefix_length :: "env \<Rightarrow> int" where
  "S_get_prefix_length e =
     (if inet6_get_prefix_length e = 0 then 128 else inet6_get_prefix_length e)"

text \<open>
  The second half of the start case of \<^verbatim>\<open>DHCPv6Client_Bound\<close>, from opening the socket
  on: given the address of the saved IAADDR, the time since the lease started and the
  lifetimes that remain, replace the old address in the kernel by the new one.
\<close>

definition Bound_set_address ::
    "env \<Rightarrow> DHCPv6Client \<Rightarrow> in6_addr \<Rightarrow> real \<Rightarrow> 32 word \<Rightarrow> 32 word \<Rightarrow> DHCPv6Client" where
  "Bound_set_address e c our_ip' time_since_start valid_lifetime preferred_lifetime =
     (if \<not> inet6_dgram_socket_ok e then c
      else (let same_address = (our_ip c \<noteq> 0 \<and> our_ip c = our_ip');
                c1 = (if our_ip c \<noteq> 0 \<and> our_ip c \<noteq> our_ip'
                      then c\<lparr>kernel := kernel c @ [Difaddr (our_ip c)]\<rparr>
                      else c);
                prefix_length = S_get_prefix_length e;
                c2 = c1\<lparr>kernel := kernel c1 @
                          [Aifaddr our_ip' prefix_length valid_lifetime preferred_lifetime]\<rparr>
            in if \<not> inet6_aifaddr_ok e then c2
               else if same_address
               then (let c3 = DHCPv6ClientCancelPendingEvents (DHCPv6ClientPostNotification c2)
                     in if lease_valid_lifetime (lease c3) \<noteq> DHCP_INFINITE_LEASE
                        then (let t1 = renew_timer_delay c3 time_since_start;
                                  c4 = c3\<lparr>renew_rebind_time :=
                                            current_time e + double_of_uint32 t1\<rparr>
                              in timer_callout_set c4 (double_of_uint32 t1)
                                   Func_RenewRebind IFEventID_start_e)
                        else c3)
               else DHCPv6ClientHandleAddressChanged e
                      (c2\<lparr>our_ip := our_ip', our_prefix_length := prefix_length\<rparr>)
                      (inet6_addrlist e)))"

text \<open>
  \<^verbatim>\<open>DHCPv6Client_Bound\<close> reads the address through \<^verbatim>\<open>client->ia_addr\<close>. Every caller
  has a saved IAADDR; with none the C code would read through NULL, and the model takes the
  unspecified address.
\<close>

definition DHCPv6Client_Bound_start :: "env \<Rightarrow> DHCPv6Client \<Rightarrow> DHCPv6Client" where
  "DHCPv6Client_Bound_start e c =
     (let our_ip' = (case ia_addr c of None \<Rightarrow> 0 | Some a \<Rightarrow> DHCPv6OptionIAADDRGetAddress a);
          c1 = DHCPv6ClientSetState c kDHCPv6ClientStateBound;
          c2 = c1\<lparr>lease := (lease c1)\<lparr>lease_valid := True\<rparr>, saved_verified := True\<rparr>;
          c3 = DHCPv6ClientCancelPendingEvents c2;
          finite = (lease_valid_lifetime (lease c3) \<noteq> DHCP_INFINITE_LEASE);
          time_since_start = (if finite then current_time e - lease_start (lease c3) else 0)
      in if finite \<and> current_time e < lease_start (lease c3)
           then DHCPv6Client_Unbound_start e c3
         else if finite \<and> uint32_of_double time_since_start \<ge> lease_valid_lifetime (lease c3)
           then DHCPv6Client_Unbound_start e c3
         else Bound_set_address e c3 our_ip' time_since_start
                (if finite
                 then lease_valid_lifetime (lease c3) - uint32_of_double time_since_start
                 else lease_valid_lifetime (lease c3))
                (if finite
                 then (if uint32_of_double time_since_start
                            < lease_preferred_lifetime (lease c3)
                       then lease_preferred_lifetime (lease c3)
                              - uint32_of_double time_since_start
                       else 0)
                 else lease_preferred_lifetime (lease c3)))"




definition DHCPv6Client_RenewRebind_data ::
    "env \<Rightarrow> DHCPv6Client \<Rightarrow> DHCPv6SocketReceiveData \<Rightarrow> DHCPv6Client" where
  "DHCPv6Client_RenewRebind_data e c data =
     (if DHCPv6PacketGetMessageType (rd_pkt data) \<noteq> kDHCPv6MessageREPLY
         \<or> DHCPv6PacketGetTransactionID (rd_pkt data) \<noteq> transaction_id c then c
      else (let (matches, c1) = S_duid_matches e c (rd_options data)
            in if \<not> matches then c1
               else (case DHCPv6OptionListGetOptionDataAndLength (rd_options data)
                            kDHCPv6OPTION_SERVERID 0 of
                       None \<Rightarrow> c1
                     | Some (_, server_id') \<Rightarrow>
                         if \<not> DHCPDUIDIsValid e server_id' then c1
                         else (case DHCPv6OptionListGetStatusCode (rd_options data) of
                                 None \<Rightarrow> c1
                               | Some code \<Rightarrow>
                                   if code \<noteq> kDHCPv6StatusCodeSuccess
                                     then DHCPv6Client_Unbound_start e c1
                                   else if fst (get_ia_na_addr (rd_options data)) = None
                                     then DHCPv6Client_Unbound_start e c1
                                   else DHCPv6Client_Bound_start e
                                          (DHCPv6ClientSavePacket e c1 data)))))"

definition DHCPv6Client_Request_data ::
    "env \<Rightarrow> DHCPv6Client \<Rightarrow> DHCPv6SocketReceiveData \<Rightarrow> DHCPv6Client" where
  "DHCPv6Client_Request_data e c data =
     (if DHCPv6PacketGetMessageType (rd_pkt data) \<noteq> kDHCPv6MessageREPLY
         \<or> DHCPv6PacketGetTransactionID (rd_pkt data) \<noteq> transaction_id c then c
      else (let (matches, c1) = S_duid_matches e c (rd_options data)
            in if \<not> matches then c1
               else (case DHCPv6OptionListGetOptionDataAndLength (rd_options data)
                            kDHCPv6OPTION_SERVERID 0 of
                       None \<Rightarrow> c1
                     | Some (_, server_id') \<Rightarrow>
                         if \<not> DHCPDUIDIsValid e server_id' then c1
                         else (case DHCPv6OptionListGetStatusCode (rd_options data) of
                                 None \<Rightarrow> c1
                               | Some code \<Rightarrow>
                                   if code = kDHCPv6StatusCodeNoAddrsAvail then c1
                                   else (case get_ia_na_addr_code (rd_options data) of
                                           (ia_na', ia_addr', code') \<Rightarrow>
                                             if code' = kDHCPv6StatusCodeNotOnLink
                                               then DHCPv6Client_Solicit_start e c1
                                             else if ia_na' = None then c1
                                             else DHCPv6Client_Bound_start e
                                                    (DHCPv6ClientSavePacket e c1 data))))))"


definition Confirm_transmit :: "env \<Rightarrow> DHCPv6Client \<Rightarrow> DHCPv6Client" where
  "Confirm_transmit e c =
     (let (rt, c1) = DHCPv6ClientNextRetransmit e c (DHCPv6_CNF_TIMEOUT e) (DHCPv6_CNF_MAX_RT e);
          c2 = timer_callout_set c1 rt Func_Confirm IFEventID_timeout_e
      in DHCPv6ClientSendPacket e c2)"

definition DHCPv6Client_Confirm_timeout :: "env \<Rightarrow> DHCPv6Client \<Rightarrow> DHCPv6Client" where
  "DHCPv6Client_Confirm_timeout e c =
     (if try_count c = 0 then Confirm_transmit e (c\<lparr>start_time := current_time e\<rparr>)
      else if if_link_valid e \<and> \<not> if_link_active e then DHCPv6ClientInactive e c
      else (let done = (if current_time e > start_time c
                        then current_time e - start_time c \<ge> DHCPv6_CNF_MAX_RD e
                        else True)
            in if done
               then (let (still_valid, c1) = DHCPv6ClientLeaseStillValid c (current_time e)
                     in if still_valid then DHCPv6Client_Bound_start e c1
                        else DHCPv6Client_Solicit_start e c1)
               else Confirm_transmit e c))"

definition DHCPv6Client_Confirm_data ::
    "env \<Rightarrow> DHCPv6Client \<Rightarrow> DHCPv6SocketReceiveData \<Rightarrow> DHCPv6Client" where
  "DHCPv6Client_Confirm_data e c data =
     (if DHCPv6PacketGetMessageType (rd_pkt data) \<noteq> kDHCPv6MessageREPLY
         \<or> DHCPv6PacketGetTransactionID (rd_pkt data) \<noteq> transaction_id c then c
      else (let (matches, c1) = S_duid_matches e c (rd_options data)
            in if \<not> matches then c1
               else (case DHCPv6OptionListGetOptionDataAndLength (rd_options data)
                            kDHCPv6OPTION_SERVERID 0 of
                       None \<Rightarrow> c1
                     | Some (_, server_id') \<Rightarrow>
                         if \<not> DHCPDUIDIsValid e server_id' then c1
                         else (case DHCPv6OptionListGetStatusCode (rd_options data) of
                                 None \<Rightarrow> c1
                               | Some code \<Rightarrow>
                                   if code \<noteq> kDHCPv6StatusCodeSuccess
                                     then DHCPv6Client_Unbound_start e c1
                                   else DHCPv6Client_Bound_start e c1))))"

definition DHCPv6Client_InformComplete_start :: "DHCPv6Client \<Rightarrow> DHCPv6Client" where
  "DHCPv6Client_InformComplete_start c =
     DHCPv6ClientCancelPendingEvents
       (DHCPv6ClientSetState c kDHCPv6ClientStateInformComplete)"



definition DHCPv6Client_Inform_data ::
    "env \<Rightarrow> DHCPv6Client \<Rightarrow> DHCPv6SocketReceiveData \<Rightarrow> DHCPv6Client" where
  "DHCPv6Client_Inform_data e c data =
     (if DHCPv6PacketGetMessageType (rd_pkt data) \<noteq> kDHCPv6MessageREPLY
         \<or> DHCPv6PacketGetTransactionID (rd_pkt data) \<noteq> transaction_id c then c
      else (let (matches, c1) = S_duid_matches e c (rd_options data)
            in if \<not> matches then c1
               else (case DHCPv6OptionListGetOptionDataAndLength (rd_options data)
                            kDHCPv6OPTION_SERVERID 0 of
                       None \<Rightarrow> c1
                     | Some (_, server_id') \<Rightarrow>
                         if \<not> DHCPDUIDIsValid e server_id' then c1
                         else DHCPv6Client_InformComplete_start
                                (DHCPv6ClientPostNotification
                                   (DHCPv6ClientSavePacket e c1 data)))))"

definition DHCPv6Client_Release_start :: "env \<Rightarrow> DHCPv6Client \<Rightarrow> DHCPv6Client" where
  "DHCPv6Client_Release_start e c =
     (let c1 = DHCPv6ClientSetState c kDHCPv6ClientStateRelease;
          c2 = DHCPv6ClientRemoveAddress e c1;
          c3 = DHCPv6ClientCancelPendingEvents c2;
          c4 = DHCPv6ClientClearRetransmit c3;
          (xid, c5) = get_new_transaction_id e c4
      in DHCPv6ClientSendPacket e (c5\<lparr>transaction_id := xid\<rparr>))"

subsection \<open>Dispatch\<close>

text \<open>
  The socket calls the function it was enabled with, with \<^verbatim>\<open>IFEventID_data_e\<close>; the timer
  calls the function and event it was armed with. No function is enabled for Release, and
  none has a timeout case for it.
\<close>

definition handler_data ::
    "handler \<Rightarrow> env \<Rightarrow> DHCPv6Client \<Rightarrow> DHCPv6SocketReceiveData \<Rightarrow> DHCPv6Client" where
  "handler_data f e c data =
     (case f of
        Func_Inform \<Rightarrow> DHCPv6Client_Inform_data e c data
      | Func_Decline \<Rightarrow> DHCPv6Client_Decline_data e c data
      | Func_RenewRebind \<Rightarrow> DHCPv6Client_RenewRebind_data e c data
      | Func_Confirm \<Rightarrow> DHCPv6Client_Confirm_data e c data
      | Func_Request \<Rightarrow> DHCPv6Client_Request_data e c data
      | Func_Solicit \<Rightarrow> DHCPv6Client_Solicit_data e c data)"

definition socket_receive ::
    "env \<Rightarrow> DHCPv6Client \<Rightarrow> DHCPv6SocketReceiveData \<Rightarrow> DHCPv6Client" where
  "socket_receive e c data =
     (case receive c of None \<Rightarrow> c | Some f \<Rightarrow> handler_data f e c data)"

text \<open>The message type each receive function waits for.\<close>

definition expected_msg_type :: "handler \<Rightarrow> 8 word" where
  "expected_msg_type f =
     (case f of Func_Solicit \<Rightarrow> kDHCPv6MessageADVERTISE | _ \<Rightarrow> kDHCPv6MessageREPLY)"

subsection \<open>The interface of the client\<close>


definition link_status_is_active :: "link_event_data \<Rightarrow> bool" where
  "link_status_is_active ls = (\<not> link_valid ls \<or> link_active ls)"







section \<open>The statements of the specification\<close>

text \<open>
  The definitions of this section follow the words of the specification, not the code; the
  theorems compare them with the code.
\<close>

subsection \<open>Scanning the IAADDR options\<close>

text \<open>The values of the options with a given code, in the order of the list.\<close>

definition options_with_code :: "DHCPv6OptionList \<Rightarrow> nat \<Rightarrow> bytes list" where
  "options_with_code opts code = map snd (filter (\<lambda>opt. fst opt = code) opts)"

text \<open>
  Scanning the IAADDR options in order and skipping those whose valid lifetime is 0, the first
  remaining one is the binding if it has a preferred lifetime no greater than its valid
  lifetime; a too-short IAADDR, or one with preferred above valid, ends the scan with nothing.
\<close>

fun first_usable_iaaddr :: "bytes list \<Rightarrow> bytes option" where
  "first_usable_iaaddr [] = None"
| "first_usable_iaaddr (d # ds) =
     (if length d < DHCPv6OptionIAADDR_MIN_LENGTH then None
      else if DHCPv6OptionIAADDRGetValidLifetime d = 0 then first_usable_iaaddr ds
      else if DHCPv6OptionIAADDRGetPreferredLifetime d > DHCPv6OptionIAADDRGetValidLifetime d
        then None
      else Some d)"

subsection \<open>Normalising the lease\<close>

text \<open>
  Section 4.4, steps 1 to 4 in order, on (T1, T2, preferred, valid). The floors are those of
  the exact products.
\<close>

definition lease_normalize_spec ::
    "32 word \<Rightarrow> 32 word \<Rightarrow> 32 word \<Rightarrow> 32 word \<Rightarrow> 32 word \<times> 32 word \<times> 32 word \<times> 32 word" where
  "lease_normalize_spec T1 T2 preferred valid =
     (let preferred1 = (if preferred = 0 then valid else preferred);
          (T1a, T2a) =
            (if T1 = 0 \<or> T2 = 0
             then (if preferred1 = DHCP_INFINITE_LEASE then (0, 0)
                   else (word_of_nat (unat preferred1 div 2),
                         word_of_nat (unat preferred1 * 4 div 5)))
             else (T1, T2));
          (T1b, T2b, preferred3, valid3) =
            (if T1a = DHCP_INFINITE_LEASE \<or> T2a = DHCP_INFINITE_LEASE
             then (0, 0, DHCP_INFINITE_LEASE, DHCP_INFINITE_LEASE)
             else (T1a, T2a, preferred1, valid));
          (T1c, T2c) = (if valid3 = DHCP_INFINITE_LEASE then (0, 0) else (T1b, T2b))
      in (T1c, T2c, preferred3, valid3))"

text \<open>The same, with step 4 also setting the preferred lifetime to INFINITE.\<close>

definition lease_normalize_amended ::
    "32 word \<Rightarrow> 32 word \<Rightarrow> 32 word \<Rightarrow> 32 word \<Rightarrow> 32 word \<times> 32 word \<times> 32 word \<times> 32 word" where
  "lease_normalize_amended T1 T2 preferred valid =
     (let preferred1 = (if preferred = 0 then valid else preferred);
          (T1a, T2a) =
            (if T1 = 0 \<or> T2 = 0
             then (if preferred1 = DHCP_INFINITE_LEASE then (0, 0)
                   else (word_of_nat (unat preferred1 div 2),
                         word_of_nat (unat preferred1 * 4 div 5)))
             else (T1, T2));
          (T1b, T2b, preferred3, valid3) =
            (if T1a = DHCP_INFINITE_LEASE \<or> T2a = DHCP_INFINITE_LEASE
             then (0, 0, DHCP_INFINITE_LEASE, DHCP_INFINITE_LEASE)
             else (T1a, T2a, preferred1, valid));
          (T1c, T2c, preferred4) =
            (if valid3 = DHCP_INFINITE_LEASE then (0, 0, DHCP_INFINITE_LEASE)
             else (T1b, T2b, preferred3))
      in (T1c, T2c, preferred4, valid3))"

definition lease_fields :: "lease_info_t \<Rightarrow> 32 word \<times> 32 word \<times> 32 word \<times> 32 word" where
  "lease_fields l =
     (lease_t1 l, lease_t2 l, lease_preferred_lifetime l, lease_valid_lifetime l)"

section \<open>Concrete inputs\<close>

text \<open>A client as \<^verbatim>\<open>DHCPv6ClientCreate\<close> leaves it: all zero, with no callback yet.\<close>

definition DHCPv6ClientCreate :: DHCPv6Client where
  "DHCPv6ClientCreate =
     \<lparr>our_ip = 0, our_prefix_length = 0, mode = kDHCPv6ClientModeIdle,
      cstate = kDHCPv6ClientStateInactive, transaction_id = 0, try_count = 0, start_time = 0,
      retransmit_time = 0, saved_pkt = None, saved_pkt_len = 0, saved_options = None,
      saved_verified = False, server_id = None, ia_na = None, ia_addr = None,
      lease = zero_lease, private_address = False, duid = None, renew_rebind_time = 0,
      callback_rls = False, signalled = False, symptoms = 0, timer = None, receive = None,
      arc4random_calls = 0, transmitted = [], kernel = []\<rparr>"

definition example_duid :: bytes where
  "example_duid = [0, 1, 0, 1, 1, 2, 3, 4, 0xaa, 0xbb, 0xcc, 0xdd, 0xee, 0xff]"

definition example_server_duid :: bytes where
  "example_server_duid = [0, 3, 0, 1, 1, 2, 3, 4, 5, 6]"

text \<open>
  A wired interface with an active link at time 0, a generator that returns 0, and the
  transmission parameters of RFC 3315.
\<close>

definition example_env :: env where
  "example_env =
     \<lparr>current_time = 0, arc4random = (\<lambda>_. 0), if_link_valid = True, if_link_active = True,
      if_is_wireless = False, if_is_cellular = False, ServiceGetSSID = None,
      DHCPDUIDCopy = Some example_duid, DHCPDUIDEstablishAndGet = Some example_duid,
      DHCPDUIDIsValid = (\<lambda>d. 2 \<le> length d), inet6_dgram_socket_ok = True,
      inet6_aifaddr_ok = True, inet6_get_prefix_length = 64, inet6_addrlist = [],
      G_wake_skew_secs = 30,
      DHCPv6_SOL_MAX_DELAY = 1, DHCPv6_SOL_TIMEOUT = 1, DHCPv6_SOL_MAX_RT = 120,
      DHCPv6_REQ_TIMEOUT = 1, DHCPv6_REQ_MAX_RT = 30, DHCPv6_REQ_MAX_RC = 10,
      DHCPv6_CNF_MAX_DELAY = 1, DHCPv6_CNF_TIMEOUT = 1, DHCPv6_CNF_MAX_RT = 4,
      DHCPv6_CNF_MAX_RD = 10, DHCPv6_REN_TIMEOUT = 10, DHCPv6_REN_MAX_RT = 600,
      DHCPv6_REB_TIMEOUT = 10, DHCPv6_REB_MAX_RT = 600, DHCPv6_INF_MAX_DELAY = 1,
      DHCPv6_INF_TIMEOUT = 1, DHCPv6_INF_MAX_RT = 120, DHCPv6_DEC_TIMEOUT = 1,
      DHCPv6_DEC_MAX_RC = 5\<rparr>"

text \<open>The IAADDR 2001:db8::1 with preferred lifetime 600 and valid lifetime 900.\<close>

definition example_iaaddr :: bytes where
  "example_iaaddr = [0x20, 0x01, 0x0d, 0xb8, 0, 0, 0, 0, 0, 0, 0, 0, 0, 0, 0, 1,
                     0, 0, 2, 0x58, 0, 0, 3, 0x84]"

text \<open>The same address with preferred lifetime 100 and valid lifetime INFINITE.\<close>

definition example_iaaddr_infinite :: bytes where
  "example_iaaddr_infinite = [0x20, 0x01, 0x0d, 0xb8, 0, 0, 0, 0, 0, 0, 0, 0, 0, 0, 0, 1,
                              0, 0, 0, 100, 0xff, 0xff, 0xff, 0xff]"

text \<open>An IAADDR with valid lifetime 0, to be skipped.\<close>

definition example_iaaddr_zero :: bytes where
  "example_iaaddr_zero = [0x20, 0x01, 0x0d, 0xb8, 0, 0, 0, 0, 0, 0, 0, 0, 0, 0, 0, 2,
                          0, 0, 0, 0, 0, 0, 0, 0]"

text \<open>IA_NA values: IAID 1, T1 and T2 zero, then the nested options.\<close>

definition example_ia_na :: bytes where
  "example_ia_na = [0, 0, 0, 1, 0, 0, 0, 0, 0, 0, 0, 0] @
                   [0, 5, 0, 24] @ example_iaaddr_zero @ [0, 5, 0, 24] @ example_iaaddr"

definition example_ia_na_infinite :: bytes where
  "example_ia_na_infinite = [0, 0, 0, 1, 0, 0, 0, 0, 0, 0, 0, 0] @
                            [0, 5, 0, 24] @ example_iaaddr_infinite"

text \<open>An IA_NA whose nested options are a STATUS_CODE NoAddrsAvail and a usable IAADDR.\<close>

definition example_ia_na_noaddrs :: bytes where
  "example_ia_na_noaddrs = [0, 0, 0, 1, 0, 0, 0, 0, 0, 0, 0, 0] @
                           [0, 13, 0, 2, 0, 2] @ [0, 5, 0, 24] @ example_iaaddr"

text \<open>Received messages with transaction id 0, echoing \<open>example_duid\<close>.\<close>

definition example_message :: "8 word \<Rightarrow> DHCPv6OptionList \<Rightarrow> bytes \<Rightarrow> DHCPv6SocketReceiveData" where
  "example_message msg_type opts raw =
     \<lparr>rd_pkt = [msg_type, 0, 0, 0] @ raw,
      rd_options = [(kDHCPv6OPTION_CLIENTID, example_duid),
                    (kDHCPv6OPTION_SERVERID, example_server_duid)] @ opts\<rparr>"

definition example_ids_raw :: bytes where
  "example_ids_raw = [0, 1, 0, 14] @ example_duid @ [0, 2, 0, 10] @ example_server_duid"

definition example_advertise :: DHCPv6SocketReceiveData where
  "example_advertise =
     example_message kDHCPv6MessageADVERTISE [(kDHCPv6OPTION_IA_NA, example_ia_na)]
       (example_ids_raw @ [0, 3, 0, 68] @ example_ia_na)"

definition example_reply :: DHCPv6SocketReceiveData where
  "example_reply =
     example_message kDHCPv6MessageREPLY [(kDHCPv6OPTION_IA_NA, example_ia_na)]
       (example_ids_raw @ [0, 3, 0, 68] @ example_ia_na)"

definition example_reply_infinite :: DHCPv6SocketReceiveData where
  "example_reply_infinite =
     example_message kDHCPv6MessageREPLY [(kDHCPv6OPTION_IA_NA, example_ia_na_infinite)]
       (example_ids_raw @ [0, 3, 0, 40] @ example_ia_na_infinite)"

definition example_reply_noaddrs :: DHCPv6SocketReceiveData where
  "example_reply_noaddrs =
     example_message kDHCPv6MessageREPLY [(kDHCPv6OPTION_IA_NA, example_ia_na_noaddrs)]
       (example_ids_raw @ [0, 3, 0, 46] @ example_ia_na_noaddrs)"




text \<open>
  The option list a saved packet ends up with: the parse of its bytes, or nothing to look
  into when they do not parse.
\<close>

definition parsed_options :: "DHCPv6SocketReceiveData \<Rightarrow> DHCPv6OptionList" where
  "parsed_options data =
     (case DHCPv6OptionListCreateWithPacket (rd_pkt data) (length (rd_pkt data)) of
        None \<Rightarrow> [] | Some l \<Rightarrow> l)"

section \<open>Reading a client and a message\<close>

text \<open>
  What the specification calls the client's state, lease, saved packet and assigned address: the
  fields that neither the retransmission engine nor a transmission touches.
\<close>

definition protocol_view ::
    "DHCPv6Client \<Rightarrow>
       DHCPv6ClientState \<times> lease_info_t \<times> bytes option \<times> nat \<times> DHCPv6OptionList option \<times> bool \<times>
       bytes option \<times> bytes option \<times> bytes option \<times> in6_addr \<times> int" where
  "protocol_view c =
     (cstate c, lease c, saved_pkt c, saved_pkt_len c, saved_options c, saved_verified c,
      server_id c, ia_na c, ia_addr c, our_ip c, our_prefix_length c)"

text \<open>The client after \<^verbatim>\<open>DHCPv6ClientGetDUID\<close> has filled in its own DUID, if it had to.\<close>

definition duid_filled :: "env \<Rightarrow> DHCPv6Client \<Rightarrow> DHCPv6Client" where
  "duid_filled e c = snd (DHCPv6ClientGetDUID e c)"

text \<open>
  The message matching rules of section 4.1: the message type is the one the receive
  function waits for, the transaction id is the client's, the CLIENTID option equals the
  client's DUID byte for byte, and the SERVERID option is present and a valid DUID.
\<close>

definition clientid_echoes_duid :: "env \<Rightarrow> DHCPv6Client \<Rightarrow> DHCPv6OptionList \<Rightarrow> bool" where
  "clientid_echoes_duid e c options =
     (case DHCPv6OptionListGetOptionDataAndLength options kDHCPv6OPTION_CLIENTID 0 of
        None \<Rightarrow> False
      | Some (_, d) \<Rightarrow> fst (DHCPv6ClientGetDUID e c) = Some d)"

definition serverid_valid :: "env \<Rightarrow> DHCPv6OptionList \<Rightarrow> bool" where
  "serverid_valid e options =
     (case DHCPv6OptionListGetOptionDataAndLength options kDHCPv6OPTION_SERVERID 0 of
        None \<Rightarrow> False
      | Some (_, d) \<Rightarrow> DHCPDUIDIsValid e d)"

definition message_matches ::
    "env \<Rightarrow> DHCPv6Client \<Rightarrow> handler \<Rightarrow> DHCPv6SocketReceiveData \<Rightarrow> bool" where
  "message_matches e c f data =
     (DHCPv6PacketGetMessageType (rd_pkt data) = expected_msg_type f
      \<and> DHCPv6PacketGetTransactionID (rd_pkt data) = transaction_id c
      \<and> clientid_echoes_duid e c (rd_options data)
      \<and> serverid_valid e (rd_options data))"

text \<open>
  An ADVERTISE that the Solicit handler takes into account: it matches, its top-level status
  code can be read and is not NoAddrsAvail, and it carries a usable IA_NA and IAADDR.
\<close>

definition advertise_acceptable :: "env \<Rightarrow> DHCPv6Client \<Rightarrow> DHCPv6SocketReceiveData \<Rightarrow> bool" where
  "advertise_acceptable e c data =
     (message_matches e c Func_Solicit data
      \<and> (case DHCPv6OptionListGetStatusCode (rd_options data) of
            None \<Rightarrow> False
          | Some code \<Rightarrow> code \<noteq> kDHCPv6StatusCodeNoAddrsAvail)
      \<and> fst (get_ia_na_addr (rd_options data)) \<noteq> None)"

text \<open>The saved ADVERTISE, if there is one, has a preference at least that of the new one.\<close>

definition saved_at_least_as_preferred :: "DHCPv6Client \<Rightarrow> 8 word \<Rightarrow> bool" where
  "saved_at_least_as_preferred c pref =
     (case saved_options c of
        None \<Rightarrow> False
      | Some saved \<Rightarrow> get_preference_value_from_options saved \<ge> pref)"

text \<open>A client in Solicit with transaction id 0 and a given try counter.\<close>

definition example_solicit_client :: "int \<Rightarrow> DHCPv6Client" where
  "example_solicit_client n =
     (DHCPv6Client_Solicit_start example_env DHCPv6ClientCreate)\<lparr>try_count := n\<rparr>"

text \<open>
  Section 4.4: a lease is still valid at a time iff its valid flag is set and its valid
  lifetime is INFINITE or the time is not before its start and less than the valid lifetime
  after it. Section 4.7: a wired interface is always on the same network; a wireless one is
  when the current SSID and the lease's SSID are both present and equal.
\<close>

definition lease_still_valid_spec :: "lease_info_t \<Rightarrow> real \<Rightarrow> bool" where
  "lease_still_valid_spec l now =
     (lease_valid l
      \<and> (lease_valid_lifetime l = DHCP_INFINITE_LEASE
          \<or> (lease_start l \<le> now
              \<and> now - lease_start l < double_of_uint32 (lease_valid_lifetime l))))"



text \<open>
  The kernel's address list has the given address flagged as duplicated (at its first entry
  for that address, the one \<^verbatim>\<open>DHCPv6ClientHandleAddressChanged\<close> acts on).
\<close>

definition reported_duplicated :: "env \<Rightarrow> in6_addr \<Rightarrow> bool" where
  "reported_duplicated e a =
     (case find (\<lambda>scan. a = addr scan) (inet6_addrlist e) of
        None \<Rightarrow> False
      | Some scan \<Rightarrow> addr_duplicated scan)"

text \<open>A client in Request with transaction id 0, waiting for its first REPLY.\<close>

definition example_request_client :: DHCPv6Client where
  "example_request_client =
     (DHCPv6ClientSavePacket example_env (example_solicit_client 1) example_advertise)
       \<lparr>cstate := kDHCPv6ClientStateRequest, receive := Some Func_Request\<rparr>"

text \<open>The socket hands over a message whose option list is the parse of its bytes.\<close>

definition socket_delivered :: "DHCPv6SocketReceiveData \<Rightarrow> bool" where
  "socket_delivered data =
     (DHCPv6OptionListCreateWithPacket (rd_pkt data) (length (rd_pkt data))
        = Some (rd_options data))"



section \<open>Properties\<close>

subsection \<open>Arithmetic of the lease computation\<close>

lemma floor_nat_half: "\<lfloor>real n * 0.5\<rfloor> = int (n div 2)"
proof -
  have "real n * 0.5 = real n / real 2" by simp
  then show ?thesis by (simp only: floor_divide_of_nat_eq)
qed

lemma floor_nat_08: "\<lfloor>real n * 0.8\<rfloor> = int (n * 4 div 5)"
proof -
  have "real n * 0.8 = real (n * 4) / real 5" by simp
  then show ?thesis by (simp only: floor_divide_of_nat_eq)
qed

lemma uint32_of_double_half_nat: "uint32_of_double (real n * 0.5) = word_of_nat (n div 2)"
proof -
  have "0 \<le> real n * 0.5" by simp
  then have "uint32_of_double (real n * 0.5) = word_of_int \<lfloor>real n * 0.5\<rfloor>"
    unfolding uint32_of_double_def by (simp only: if_True)
  then show ?thesis by (simp only: floor_nat_half word_of_int_nat [symmetric] of_int_of_nat_eq)
qed

lemma uint32_of_double_08_nat: "uint32_of_double (real n * 0.8) = word_of_nat (n * 4 div 5)"
proof -
  have "0 \<le> real n * 0.8" by simp
  then have "uint32_of_double (real n * 0.8) = word_of_int \<lfloor>real n * 0.8\<rfloor>"
    unfolding uint32_of_double_def by (simp only: if_True)
  then show ?thesis by (simp only: floor_nat_08 of_int_of_nat_eq)
qed

lemma uint32_half: "uint32_of_double (double_of_uint32 p * 0.5) = word_of_nat (unat p div 2)"
  unfolding double_of_uint32_def by (rule uint32_of_double_half_nat)

lemma uint32_08: "uint32_of_double (double_of_uint32 p * 0.8) = word_of_nat (unat p * 4 div 5)"
  unfolding double_of_uint32_def by (rule uint32_of_double_08_nat)

lemma unat_half: "unat (word_of_nat (unat (p :: 32 word) div 2) :: 32 word) = unat p div 2"
proof -
  have "unat p < 2 ^ 32" using unsigned_less [of p, where 'a = nat] by simp
  then have "unat p div 2 < 2 ^ LENGTH(32)" by simp
  then show ?thesis by (simp only: unat_of_nat mod_less)
qed

lemma unat_08: "unat (word_of_nat (unat (p :: 32 word) * 4 div 5) :: 32 word) = unat p * 4 div 5"
proof -
  have "unat p < 2 ^ 32" using unsigned_less [of p, where 'a = nat] by simp
  then have "unat p * 4 div 5 < 2 ^ LENGTH(32)" by simp
  then show ?thesis by (simp only: unat_of_nat mod_less)
qed

lemma half_not_infinite: "(word_of_nat (unat (p :: 32 word) div 2) :: 32 word) \<noteq> DHCP_INFINITE_LEASE"
proof
  assume "(word_of_nat (unat p div 2) :: 32 word) = DHCP_INFINITE_LEASE"
  then have "unat (word_of_nat (unat p div 2) :: 32 word) = unat DHCP_INFINITE_LEASE" by simp
  then have "unat p div 2 = 4294967295" by (simp only: unat_half) (simp add: DHCP_INFINITE_LEASE_def)
  moreover have "unat p < 2 ^ 32" using unsigned_less [of p, where 'a = nat] by simp
  ultimately show False by simp
qed

lemma p08_not_infinite: "(word_of_nat (unat (p :: 32 word) * 4 div 5) :: 32 word) \<noteq> DHCP_INFINITE_LEASE"
proof
  assume "(word_of_nat (unat p * 4 div 5) :: 32 word) = DHCP_INFINITE_LEASE"
  then have "unat (word_of_nat (unat p * 4 div 5) :: 32 word) = unat DHCP_INFINITE_LEASE" by simp
  then have "unat p * 4 div 5 = 4294967295" by (simp only: unat_08) (simp add: DHCP_INFINITE_LEASE_def)
  moreover have "unat p < 2 ^ 32" using unsigned_less [of p, where 'a = nat] by simp
  ultimately show False by simp
qed

lemma half_le_08: "(word_of_nat (unat (p :: 32 word) div 2) :: 32 word) \<le> word_of_nat (unat p * 4 div 5)"
proof -
  have "unat p div 2 \<le> unat p * 4 div 5" by simp
  then show ?thesis by (simp only: word_le_nat_alt unat_half unat_08)
qed

lemma uint32_half': "uint32_of_double (double_of_uint32 p / 2) = word_of_nat (unat p div 2)"
  using uint32_half [of p] by simp

lemma uint32_08': "uint32_of_double (double_of_uint32 p * 4 / 5) = word_of_nat (unat p * 4 div 5)"
  using uint32_08 [of p] by simp

lemma SavePacket_lease_fields:
  "lease_fields (SavePacket_lease now l T1 T2 valid preferred)
     = lease_normalize_amended T1 T2 preferred valid"
  by (simp add: SavePacket_lease_def lease_normalize_amended_def lease_fields_def Let_def
        uint32_half' uint32_08' half_not_infinite p08_not_infinite)

lemma lease_normalize_amended_order:
  assumes "lease_normalize_amended T1 T2 preferred valid = (a, b, p, v)"
      and "\<not> (T1 \<noteq> 0 \<and> T2 \<noteq> 0 \<and> T1 > T2)"
  shows "(a \<noteq> 0 \<and> b \<noteq> 0 \<longrightarrow> a \<le> b) \<and> (v = DHCP_INFINITE_LEASE \<longrightarrow> a = 0 \<and> b = 0)"
  using assms half_le_08
  by (auto simp: lease_normalize_amended_def Let_def half_not_infinite p08_not_infinite
           split: if_splits)


lemma GetOption_Some:
  assumes "DHCPv6OptionListGetOptionDataAndLength opts code s = Some (i, d)"
  shows "s \<le> i \<and> i < length opts \<and> opts ! i = (code, d)
         \<and> (\<forall>j. s \<le> j \<and> j < i \<longrightarrow> fst (opts ! j) \<noteq> code)"
proof -
  from assms obtain k where k: "k < length opts - s" "i = s + k" "opts ! (s + k) = (code, d)"
    "\<forall>j<k. fst (opts ! (s + j)) \<noteq> code"
    by (auto simp: DHCPv6OptionListGetOptionDataAndLength_def find_Some_iff nth_enumerate_eq
             split: option.splits)
  have "\<forall>j. s \<le> j \<and> j < i \<longrightarrow> fst (opts ! j) \<noteq> code"
  proof (intro allI impI)
    fix j assume "s \<le> j \<and> j < i"
    then have "j - s < k" "s + (j - s) = j" using k(2) by auto
    with k(4) show "fst (opts ! j) \<noteq> code" by metis
  qed
  with k show ?thesis by auto
qed

lemma GetOption_None:
  assumes "DHCPv6OptionListGetOptionDataAndLength opts code s = None"
  shows "filter (\<lambda>opt. fst opt = code) (drop s opts) = []"
proof -
  from assms have "find (\<lambda>(i, opt). fst opt = code) (drop s (enumerate 0 opts)) = None"
    by (auto simp: DHCPv6OptionListGetOptionDataAndLength_def split: option.splits)
  then have n: "\<forall>p \<in> set (drop s (enumerate 0 opts)). fst (snd p) \<noteq> code"
    by (auto simp: find_None_iff)
  have "\<forall>x \<in> set (drop s opts). fst x \<noteq> code"
  proof
    fix x assume "x \<in> set (drop s opts)"
    then obtain k where k: "k < length opts - s" "x = opts ! (s + k)"
      by (auto simp: in_set_conv_nth)
    then have "drop s (enumerate 0 opts) ! k = (s + k, x)"
      by (simp add: nth_enumerate_eq)
    moreover have "k < length (drop s (enumerate 0 opts))" using k(1) by simp
    ultimately have "(s + k, x) \<in> set (drop s (enumerate 0 opts))"
      by (metis nth_mem)
    with n show "fst x \<noteq> code" by fastforce
  qed
  then show ?thesis by (auto simp: filter_empty_conv)
qed

lemma filter_drop_first:
  assumes "s \<le> i" "i < length xs" "P (xs ! i)" "\<forall>j. s \<le> j \<and> j < i \<longrightarrow> \<not> P (xs ! j)"
  shows "filter P (drop s xs) = xs ! i # filter P (drop (Suc i) xs)"
proof -
  have split: "drop s xs = take (i - s) (drop s xs) @ xs ! i # drop (Suc i) xs"
  proof -
    have "drop s xs = take (i - s) (drop s xs) @ drop (i - s) (drop s xs)"
      by (rule append_take_drop_id [symmetric])
    also have "drop (i - s) (drop s xs) = drop i xs" using assms(1) by (simp add: add.commute)
    also have "drop i xs = xs ! i # drop (Suc i) xs" using assms(2) by (simp add: Cons_nth_drop_Suc)
    finally show ?thesis .
  qed
  have "\<forall>x \<in> set (take (i - s) (drop s xs)). \<not> P x"
  proof
    fix x assume "x \<in> set (take (i - s) (drop s xs))"
    then obtain k where "k < i - s" "k < length (drop s xs)" "x = drop s xs ! k"
      by (auto simp: in_set_conv_nth)
    then have "x = xs ! (s + k)" "s \<le> s + k" "s + k < i" using assms(2) by auto
    with assms(4) show "\<not> P x" by blast
  qed
  then have "filter P (take (i - s) (drop s xs)) = []" by (simp add: filter_empty_conv)
  then show ?thesis using assms(3) by (subst split) simp
qed

lemma GetOption_filter:
  assumes "DHCPv6OptionListGetOptionDataAndLength opts code s = Some (i, d)"
  shows "options_with_code (drop s opts) code = d # options_with_code (drop (Suc i) opts) code"
proof -
  from GetOption_Some [OF assms] have a: "s \<le> i" "i < length opts" "opts ! i = (code, d)"
    "\<forall>j. s \<le> j \<and> j < i \<longrightarrow> \<not> fst (opts ! j) = code" by auto
  have "filter (\<lambda>opt. fst opt = code) (drop s opts)
        = opts ! i # filter (\<lambda>opt. fst opt = code) (drop (Suc i) opts)"
    by (rule filter_drop_first) (use a in auto)
  then show ?thesis by (simp add: options_with_code_def a(3))
qed

lemma ia_addr_scan_refines:
  "ia_addr_scan opts s = first_usable_iaaddr (options_with_code (drop s opts) kDHCPv6OPTION_IAADDR)"
proof (induction opts s rule: ia_addr_scan.induct)
  case (1 opts s)
  show ?case
  proof (cases "DHCPv6OptionListGetOptionDataAndLength opts kDHCPv6OPTION_IAADDR s")
    case None
    then show ?thesis
      by (subst ia_addr_scan.simps) (simp add: options_with_code_def GetOption_None)
  next
    case (Some p)
    obtain i d where p: "p = (i, d)" by (cases p)
    note f = GetOption_filter [OF Some [unfolded p]]
    show ?thesis
    proof (cases "\<not> length d < DHCPv6OptionIAADDR_MIN_LENGTH \<and> DHCPv6OptionIAADDRGetValidLifetime d = 0")
      case True
      then have "ia_addr_scan opts (i + 1)
         = first_usable_iaaddr (options_with_code (drop (i + 1) opts) kDHCPv6OPTION_IAADDR)"
        using "1.IH" [OF Some p [symmetric]] by simp
      then show ?thesis using True Some p f
        by (subst ia_addr_scan.simps) simp
    next
      case False
      then show ?thesis using Some p f
        by (subst ia_addr_scan.simps) auto
    qed
  qed
qed

lemma first_usable_iaaddr_Some:
  "first_usable_iaaddr ds = Some d \<Longrightarrow>
     d \<in> set ds \<and> DHCPv6OptionIAADDR_MIN_LENGTH \<le> length d
     \<and> DHCPv6OptionIAADDRGetValidLifetime d \<noteq> 0
     \<and> DHCPv6OptionIAADDRGetPreferredLifetime d \<le> DHCPv6OptionIAADDRGetValidLifetime d"
  by (induction ds) (auto split: if_splits)

lemma get_ia_na_addr_code_Some:
  assumes "get_ia_na_addr_code options = (Some na, r_ia_addr, code)"
  shows "\<exists>i ia_na_options ad.
           DHCPv6OptionListGetOptionDataAndLength options kDHCPv6OPTION_IA_NA 0 = Some (i, na)
         \<and> DHCPv6OptionIA_NA_MIN_LENGTH < length na
         \<and> \<not> (DHCPv6OptionIA_NAGetT1 na \<noteq> 0 \<and> DHCPv6OptionIA_NAGetT2 na \<noteq> 0
               \<and> DHCPv6OptionIA_NAGetT1 na > DHCPv6OptionIA_NAGetT2 na)
         \<and> DHCPv6OptionListCreate (drop DHCPv6OptionIA_NA_MIN_LENGTH na)
             (length na - DHCPv6OptionIA_NA_MIN_LENGTH) = Some ia_na_options
         \<and> DHCPv6OptionListGetStatusCode ia_na_options = Some code
         \<and> r_ia_addr = Some ad
         \<and> first_usable_iaaddr (options_with_code ia_na_options kDHCPv6OPTION_IAADDR) = Some ad"
proof (cases "DHCPv6OptionListGetOptionDataAndLength options kDHCPv6OPTION_IA_NA 0")
  case None
  with assms show ?thesis by (simp add: get_ia_na_addr_code_def)
next
  case (Some p)
  obtain i d where p: "p = (i, d)" by (cases p)
  show ?thesis
  proof (cases "length d \<le> DHCPv6OptionIA_NA_MIN_LENGTH
        \<or> (DHCPv6OptionIA_NAGetT1 d \<noteq> 0 \<and> DHCPv6OptionIA_NAGetT2 d \<noteq> 0
               \<and> DHCPv6OptionIA_NAGetT1 d > DHCPv6OptionIA_NAGetT2 d)")
    case True
    with assms Some p show ?thesis by (auto simp add: get_ia_na_addr_code_def split: if_splits)
  next
    case guard: False
    show ?thesis
    proof (cases "DHCPv6OptionListCreate (drop DHCPv6OptionIA_NA_MIN_LENGTH d)
                    (length d - DHCPv6OptionIA_NA_MIN_LENGTH)")
      case None
      with assms Some p guard show ?thesis by (auto simp add: get_ia_na_addr_code_def split: if_splits)
    next
      case parsed: (Some ia_na_options)
      show ?thesis
      proof (cases "DHCPv6OptionListGetStatusCode ia_na_options")
        case None
        with assms Some p guard parsed show ?thesis
          by (auto simp add: get_ia_na_addr_code_def split: if_splits)
      next
        case status: (Some code')
        show ?thesis
        proof (cases "ia_addr_scan ia_na_options 0")
          case None
          with assms Some p guard parsed status show ?thesis
            by (auto simp add: get_ia_na_addr_code_def split: if_splits)
        next
          case scan: (Some ad)
          with assms Some p guard parsed status
          have "na = d" "r_ia_addr = Some ad" "code = code'"
            by (auto simp add: get_ia_na_addr_code_def split: if_splits)
          moreover from scan
          have "first_usable_iaaddr (options_with_code ia_na_options kDHCPv6OPTION_IAADDR) = Some ad"
            by (simp add: ia_addr_scan_refines)
          ultimately show ?thesis using Some p guard parsed status by auto
        qed
      qed
    qed
  qed
qed


lemma get_ia_na_addr_code_None:
  "get_ia_na_addr_code options = (None, r_ia_addr, code) \<Longrightarrow> r_ia_addr = None"
  by (auto simp: get_ia_na_addr_code_def split: option.splits if_splits)

subsection \<open>Evaluating the concrete inputs\<close>

lemmas option_codes =
  kDHCPv6OPTION_CLIENTID_def kDHCPv6OPTION_SERVERID_def kDHCPv6OPTION_IA_NA_def
  kDHCPv6OPTION_IAADDR_def kDHCPv6OPTION_PREFERENCE_def kDHCPv6OPTION_STATUS_CODE_def

lemmas wire_sizes =
  DHCPV6_PACKET_HEADER_LENGTH_def DHCPv6OptionIA_NA_MIN_LENGTH_def
  DHCPv6OptionIAADDR_MIN_LENGTH_def DHCPv6OptionPREFERENCE_MIN_LENGTH_def
  DHCPv6OptionSTATUS_CODE_MIN_LENGTH_def

lemmas wire_getters =
  DHCPv6OptionIA_NAGetT1_def DHCPv6OptionIA_NAGetT2_def
  DHCPv6OptionIAADDRGetPreferredLifetime_def DHCPv6OptionIAADDRGetValidLifetime_def
  get_u32_def be_nat_def

lemma example_nested_parse:
  "DHCPv6OptionListCreate (drop 12 example_ia_na) 56
   = Some [(kDHCPv6OPTION_IAADDR, example_iaaddr_zero), (kDHCPv6OPTION_IAADDR, example_iaaddr)]"
  by (simp add: DHCPv6OptionListCreate_def DHCPv6OptionListParse.simps example_ia_na_def
        example_iaaddr_zero_def example_iaaddr_def option_codes wire_sizes be_nat_def)

lemma example_scan:
  "ia_addr_scan [(kDHCPv6OPTION_IAADDR, example_iaaddr_zero), (kDHCPv6OPTION_IAADDR, example_iaaddr)] 0
     = Some example_iaaddr"
  by (simp add: ia_addr_scan_refines options_with_code_def example_iaaddr_zero_def
        example_iaaddr_def wire_sizes wire_getters)

lemma example_ia_na_length: "length example_ia_na = 68"
  by (simp add: example_ia_na_def example_iaaddr_zero_def example_iaaddr_def)

lemma example_ia_na_T1_T2:
  "DHCPv6OptionIA_NAGetT1 example_ia_na = 0" "DHCPv6OptionIA_NAGetT2 example_ia_na = 0"
  by (simp_all add: example_ia_na_def wire_getters)

lemma example_iaaddr_lifetimes:
  "DHCPv6OptionIAADDRGetPreferredLifetime example_iaaddr = 600"
  "DHCPv6OptionIAADDRGetValidLifetime example_iaaddr = 900"
  "length example_iaaddr = 24"
  by (simp_all add: example_iaaddr_def wire_getters)

lemma example_ia_eval:
  "get_ia_na_addr_code [(kDHCPv6OPTION_IA_NA, example_ia_na)]
     = (Some example_ia_na, Some example_iaaddr, kDHCPv6StatusCodeSuccess)"
proof -
  have st: "DHCPv6OptionListGetStatusCode
     [(kDHCPv6OPTION_IAADDR, example_iaaddr_zero), (kDHCPv6OPTION_IAADDR, example_iaaddr)]
     = Some kDHCPv6StatusCodeSuccess"
    by (simp add: DHCPv6OptionListGetStatusCode_def DHCPv6OptionListGetOptionDataAndLength_def
          option_codes)
  show ?thesis
    by (simp add: get_ia_na_addr_code_def DHCPv6OptionListGetOptionDataAndLength_def
          example_nested_parse example_scan st example_ia_na_T1_T2 example_ia_na_length
          DHCPv6OptionIA_NA_MIN_LENGTH_def)
qed

subsection \<open>The usable binding of a message\<close>

text \<open>
  Claim C10. The IA_NA extraction yields a usable binding only when all of this holds, and
  otherwise reports the IA_NA as absent, with no IAADDR: the IA_NA option is present and
  longer than its fixed part; it is not the case that T1 and T2 are both nonzero with T1
  above T2; its nested options parse; and, scanning its IAADDR options in order and skipping
  those with valid lifetime 0, the first that remains is the one returned, is not too short
  and has a preferred lifetime no greater than its valid lifetime.
\<close>

theorem get_ia_na_addr_code_usable_only_if:
  assumes "get_ia_na_addr_code options = (r_ia_na, r_ia_addr, code)"
  shows "(r_ia_na = None \<longrightarrow> r_ia_addr = None)
       \<and> (\<forall>na. r_ia_na = Some na \<longrightarrow>
            (\<exists>i ia_na_options ad.
               DHCPv6OptionListGetOptionDataAndLength options kDHCPv6OPTION_IA_NA 0 = Some (i, na)
             \<and> DHCPv6OptionIA_NA_MIN_LENGTH < length na
             \<and> \<not> (DHCPv6OptionIA_NAGetT1 na \<noteq> 0 \<and> DHCPv6OptionIA_NAGetT2 na \<noteq> 0
                   \<and> DHCPv6OptionIA_NAGetT1 na > DHCPv6OptionIA_NAGetT2 na)
             \<and> DHCPv6OptionListCreate (drop DHCPv6OptionIA_NA_MIN_LENGTH na)
                 (length na - DHCPv6OptionIA_NA_MIN_LENGTH) = Some ia_na_options
             \<and> r_ia_addr = Some ad
             \<and> first_usable_iaaddr (options_with_code ia_na_options kDHCPv6OPTION_IAADDR) = Some ad
             \<and> DHCPv6OptionIAADDR_MIN_LENGTH \<le> length ad
             \<and> DHCPv6OptionIAADDRGetValidLifetime ad \<noteq> 0
             \<and> DHCPv6OptionIAADDRGetPreferredLifetime ad
                 \<le> DHCPv6OptionIAADDRGetValidLifetime ad))"
proof (intro conjI allI impI)
  assume "r_ia_na = None"
  with assms show "r_ia_addr = None" by (simp add: get_ia_na_addr_code_None)
next
  fix na assume "r_ia_na = Some na"
  with assms have "get_ia_na_addr_code options = (Some na, r_ia_addr, code)" by simp
  from get_ia_na_addr_code_Some [OF this] obtain i ia_na_options ad where
    h: "DHCPv6OptionListGetOptionDataAndLength options kDHCPv6OPTION_IA_NA 0 = Some (i, na)"
       "DHCPv6OptionIA_NA_MIN_LENGTH < length na"
       "\<not> (DHCPv6OptionIA_NAGetT1 na \<noteq> 0 \<and> DHCPv6OptionIA_NAGetT2 na \<noteq> 0
               \<and> DHCPv6OptionIA_NAGetT1 na > DHCPv6OptionIA_NAGetT2 na)"
       "DHCPv6OptionListCreate (drop DHCPv6OptionIA_NA_MIN_LENGTH na)
             (length na - DHCPv6OptionIA_NA_MIN_LENGTH) = Some ia_na_options"
       "r_ia_addr = Some ad"
       "first_usable_iaaddr (options_with_code ia_na_options kDHCPv6OPTION_IAADDR) = Some ad"
    by blast
  from first_usable_iaaddr_Some [OF h(6)] h
  show "\<exists>i ia_na_options ad.
               DHCPv6OptionListGetOptionDataAndLength options kDHCPv6OPTION_IA_NA 0 = Some (i, na)
             \<and> DHCPv6OptionIA_NA_MIN_LENGTH < length na
             \<and> \<not> (DHCPv6OptionIA_NAGetT1 na \<noteq> 0 \<and> DHCPv6OptionIA_NAGetT2 na \<noteq> 0
                   \<and> DHCPv6OptionIA_NAGetT1 na > DHCPv6OptionIA_NAGetT2 na)
             \<and> DHCPv6OptionListCreate (drop DHCPv6OptionIA_NA_MIN_LENGTH na)
                 (length na - DHCPv6OptionIA_NA_MIN_LENGTH) = Some ia_na_options
             \<and> r_ia_addr = Some ad
             \<and> first_usable_iaaddr (options_with_code ia_na_options kDHCPv6OPTION_IAADDR) = Some ad
             \<and> DHCPv6OptionIAADDR_MIN_LENGTH \<le> length ad
             \<and> DHCPv6OptionIAADDRGetValidLifetime ad \<noteq> 0
             \<and> DHCPv6OptionIAADDRGetPreferredLifetime ad
                 \<le> DHCPv6OptionIAADDRGetValidLifetime ad"
    by blast
qed

theorem get_ia_na_addr_code_usable_witness:
  "get_ia_na_addr_code [(kDHCPv6OPTION_IA_NA, example_ia_na)]
     = (Some example_ia_na, Some example_iaaddr, kDHCPv6StatusCodeSuccess)
   \<and> (\<exists>i ia_na_options.
         DHCPv6OptionListGetOptionDataAndLength [(kDHCPv6OPTION_IA_NA, example_ia_na)]
           kDHCPv6OPTION_IA_NA 0 = Some (i, example_ia_na)
       \<and> DHCPv6OptionListCreate (drop DHCPv6OptionIA_NA_MIN_LENGTH example_ia_na)
           (length example_ia_na - DHCPv6OptionIA_NA_MIN_LENGTH) = Some ia_na_options
       \<and> first_usable_iaaddr (options_with_code ia_na_options kDHCPv6OPTION_IAADDR)
           = Some example_iaaddr)
   \<and> DHCPv6OptionIAADDRGetValidLifetime example_iaaddr \<noteq> 0
   \<and> DHCPv6OptionIAADDRGetPreferredLifetime example_iaaddr
        \<le> DHCPv6OptionIAADDRGetValidLifetime example_iaaddr"
  using get_ia_na_addr_code_usable_only_if [OF example_ia_eval] example_ia_eval by auto

subsection \<open>The lease-still-valid test\<close>



subsection \<open>The retransmission engine\<close>



lemma DHCPv6_RAND_client:
  "DHCPv6_RAND e c = (u, c') \<Longrightarrow> c' = c\<lparr>arc4random_calls := arc4random_calls c + 1\<rparr>"
  by (auto simp: DHCPv6_RAND_def random_double_in_range_def arc4random_next_def)







subsection \<open>Saving a packet\<close>

lemma SavePacket_saved:
  "saved_pkt (DHCPv6ClientSavePacket e c data) = Some (rd_pkt data)"
  "saved_pkt_len (DHCPv6ClientSavePacket e c data) = length (rd_pkt data)"
  "saved_options (DHCPv6ClientSavePacket e c data)
     = DHCPv6OptionListCreateWithPacket (rd_pkt data) (length (rd_pkt data))"
  "saved_verified (DHCPv6ClientSavePacket e c data)"
  "ia_na (DHCPv6ClientSavePacket e c data) = fst (get_ia_na_addr (parsed_options data))"
  "ia_addr (DHCPv6ClientSavePacket e c data) = snd (get_ia_na_addr (parsed_options data))"
  "server_id (DHCPv6ClientSavePacket e c data)
     = map_option snd (DHCPv6OptionListGetOptionDataAndLength (parsed_options data)
                         kDHCPv6OPTION_SERVERID 0)"
  by (simp_all add: DHCPv6ClientSavePacket_def Let_def parsed_options_def DHCPv6ClientClearPacket_def
        DHCPv6ClientClearLease_def DHCPv6ClientSetSSID_def split: option.splits)

lemma SavePacket_other:
  "cstate (DHCPv6ClientSavePacket e c data) = cstate c"
  "try_count (DHCPv6ClientSavePacket e c data) = try_count c"
  "our_ip (DHCPv6ClientSavePacket e c data) = our_ip c"
  "transaction_id (DHCPv6ClientSavePacket e c data) = transaction_id c"
  "timer (DHCPv6ClientSavePacket e c data) = timer c"
  "receive (DHCPv6ClientSavePacket e c data) = receive c"
  "duid (DHCPv6ClientSavePacket e c data) = duid c"
  "private_address (DHCPv6ClientSavePacket e c data) = private_address c"
  by (simp_all add: DHCPv6ClientSavePacket_def Let_def DHCPv6ClientClearPacket_def
        DHCPv6ClientClearLease_def DHCPv6ClientSetSSID_def split: option.splits)

lemma SavePacket_lease_of:
  "fst (get_ia_na_addr (parsed_options data)) = Some na \<Longrightarrow>
   snd (get_ia_na_addr (parsed_options data)) = Some ad \<Longrightarrow>
   lease (DHCPv6ClientSavePacket e c data) =
     SavePacket_lease (current_time e) (zero_lease\<lparr>lease_ssid := ServiceGetSSID e\<rparr>)
       (DHCPv6OptionIA_NAGetT1 na) (DHCPv6OptionIA_NAGetT2 na)
       (DHCPv6OptionIAADDRGetValidLifetime ad) (DHCPv6OptionIAADDRGetPreferredLifetime ad)"
  by (simp add: DHCPv6ClientSavePacket_def Let_def parsed_options_def DHCPv6ClientClearPacket_def
        DHCPv6ClientClearLease_def DHCPv6ClientSetSSID_def)

lemma SavePacket_lease_start:
  "lease_start (SavePacket_lease now l T1 T2 valid preferred) = now"
  by (simp add: SavePacket_lease_def Let_def split: prod.splits)

lemma get_ia_na_addr_Some:
  assumes "fst (get_ia_na_addr options) = Some na"
  shows "\<not> (DHCPv6OptionIA_NAGetT1 na \<noteq> 0 \<and> DHCPv6OptionIA_NAGetT2 na \<noteq> 0
              \<and> DHCPv6OptionIA_NAGetT1 na > DHCPv6OptionIA_NAGetT2 na)"
proof -
  obtain a b code where g: "get_ia_na_addr_code options = (a, b, code)"
    by (cases "get_ia_na_addr_code options")
  with assms have "a = Some na" by (simp add: get_ia_na_addr_def)
  with g get_ia_na_addr_code_Some [of options na b code] show ?thesis by blast
qed

text \<open>
  Claim C3, amended. Whenever a packet with a usable IA_NA and IAADDR is saved, the stored
  T1, T2, preferred and valid lifetimes are the received ones normalised in order by: (1) a
  preferred lifetime of 0 becomes the valid lifetime; (2) if T1 or T2 is 0, then both become
  0 when preferred is INFINITE, and floor(preferred * 0.5) and floor(preferred * 0.8)
  otherwise; (3) if T1 or T2 is INFINITE, then T1 = T2 = 0 and preferred = valid = INFINITE;
  (4) if valid is INFINITE, then T1 = T2 = 0 and preferred = INFINITE. The lease starts at
  the current time. So T1 <= T2 whenever both are nonzero, and an INFINITE valid lifetime
  has T1 = T2 = 0.
\<close>

theorem SavePacket_lease_normalized:
  assumes "ia_na (DHCPv6ClientSavePacket e c data) = Some na"
      and "ia_addr (DHCPv6ClientSavePacket e c data) = Some ad"
  shows "lease_fields (lease (DHCPv6ClientSavePacket e c data))
           = lease_normalize_amended (DHCPv6OptionIA_NAGetT1 na) (DHCPv6OptionIA_NAGetT2 na)
               (DHCPv6OptionIAADDRGetPreferredLifetime ad) (DHCPv6OptionIAADDRGetValidLifetime ad)
       \<and> lease_start (lease (DHCPv6ClientSavePacket e c data)) = current_time e
       \<and> (lease_t1 (lease (DHCPv6ClientSavePacket e c data)) \<noteq> 0
            \<and> lease_t2 (lease (DHCPv6ClientSavePacket e c data)) \<noteq> 0
          \<longrightarrow> lease_t1 (lease (DHCPv6ClientSavePacket e c data))
                \<le> lease_t2 (lease (DHCPv6ClientSavePacket e c data)))
       \<and> (lease_valid_lifetime (lease (DHCPv6ClientSavePacket e c data)) = DHCP_INFINITE_LEASE
          \<longrightarrow> lease_t1 (lease (DHCPv6ClientSavePacket e c data)) = 0
              \<and> lease_t2 (lease (DHCPv6ClientSavePacket e c data)) = 0)"
proof -
  let ?l = "lease (DHCPv6ClientSavePacket e c data)"
  from assms have g: "fst (get_ia_na_addr (parsed_options data)) = Some na"
    "snd (get_ia_na_addr (parsed_options data)) = Some ad"
    by (simp_all add: SavePacket_saved)
  then have l: "?l = SavePacket_lease (current_time e) (zero_lease\<lparr>lease_ssid := ServiceGetSSID e\<rparr>)
            (DHCPv6OptionIA_NAGetT1 na) (DHCPv6OptionIA_NAGetT2 na)
            (DHCPv6OptionIAADDRGetValidLifetime ad) (DHCPv6OptionIAADDRGetPreferredLifetime ad)"
    by (simp add: SavePacket_lease_of)
  have f: "lease_fields ?l
           = lease_normalize_amended (DHCPv6OptionIA_NAGetT1 na) (DHCPv6OptionIA_NAGetT2 na)
               (DHCPv6OptionIAADDRGetPreferredLifetime ad) (DHCPv6OptionIAADDRGetValidLifetime ad)"
    by (simp only: l SavePacket_lease_fields)
  have s: "lease_start ?l = current_time e" by (simp only: l SavePacket_lease_start)
  from f have "lease_normalize_amended (DHCPv6OptionIA_NAGetT1 na) (DHCPv6OptionIA_NAGetT2 na)
               (DHCPv6OptionIAADDRGetPreferredLifetime ad) (DHCPv6OptionIAADDRGetValidLifetime ad)
      = (lease_t1 ?l, lease_t2 ?l, lease_preferred_lifetime ?l, lease_valid_lifetime ?l)"
    by (simp add: lease_fields_def)
  from lease_normalize_amended_order [OF this get_ia_na_addr_Some [OF g(1)]] f s
  show ?thesis by blast
qed

lemmas example_bytes =
  example_duid_def example_server_duid_def example_iaaddr_def example_iaaddr_infinite_def
  example_iaaddr_zero_def example_ia_na_def example_ia_na_infinite_def
  example_ia_na_noaddrs_def example_ids_raw_def

lemma example_reply_infinite_parse:
  "DHCPv6OptionListCreateWithPacket (rd_pkt example_reply_infinite)
     (length (rd_pkt example_reply_infinite)) = Some (rd_options example_reply_infinite)"
  by (simp add: example_reply_infinite_def example_message_def DHCPv6OptionListCreateWithPacket_def
        DHCPv6OptionListCreate_def DHCPv6OptionListParse.simps example_bytes option_codes
        wire_sizes be_nat_def)

lemma example_infinite_nested:
  "DHCPv6OptionListCreate (drop 12 example_ia_na_infinite) 28
     = Some [(kDHCPv6OPTION_IAADDR, example_iaaddr_infinite)]"
  by (simp add: DHCPv6OptionListCreate_def DHCPv6OptionListParse.simps example_bytes
        option_codes be_nat_def)

lemma example_infinite_values:
  "DHCPv6OptionIA_NAGetT1 example_ia_na_infinite = 0"
  "DHCPv6OptionIA_NAGetT2 example_ia_na_infinite = 0"
  "DHCPv6OptionIAADDRGetPreferredLifetime example_iaaddr_infinite = 100"
  "DHCPv6OptionIAADDRGetValidLifetime example_iaaddr_infinite = DHCP_INFINITE_LEASE"
  "length example_ia_na_infinite = 40"
  "length example_iaaddr_infinite = 24"
  by (simp_all add: example_bytes wire_getters DHCP_INFINITE_LEASE_def)

lemma example_infinite_ia:
  "get_ia_na_addr_code (rd_options example_reply_infinite)
     = (Some example_ia_na_infinite, Some example_iaaddr_infinite, kDHCPv6StatusCodeSuccess)"
proof -
  have st: "DHCPv6OptionListGetStatusCode [(kDHCPv6OPTION_IAADDR, example_iaaddr_infinite)]
     = Some kDHCPv6StatusCodeSuccess"
    by (simp add: DHCPv6OptionListGetStatusCode_def DHCPv6OptionListGetOptionDataAndLength_def
          option_codes)
  have sc: "ia_addr_scan [(kDHCPv6OPTION_IAADDR, example_iaaddr_infinite)] 0
     = Some example_iaaddr_infinite"
    by (simp add: ia_addr_scan_refines options_with_code_def example_infinite_values
          wire_sizes DHCP_INFINITE_LEASE_def)
  show ?thesis
    by (simp add: get_ia_na_addr_code_def DHCPv6OptionListGetOptionDataAndLength_def
          example_reply_infinite_def example_message_def option_codes
          example_infinite_nested [unfolded option_codes] sc [unfolded option_codes]
          st [unfolded option_codes] example_infinite_values DHCPv6OptionIA_NA_MIN_LENGTH_def)
qed

lemma example_infinite_saved:
  "ia_na (DHCPv6ClientSavePacket e c example_reply_infinite) = Some example_ia_na_infinite"
  "ia_addr (DHCPv6ClientSavePacket e c example_reply_infinite) = Some example_iaaddr_infinite"
  by (simp_all add: SavePacket_saved parsed_options_def example_reply_infinite_parse
        get_ia_na_addr_def example_infinite_ia)

theorem SavePacket_lease_normalized_witness:
  "ia_na (DHCPv6ClientSavePacket example_env DHCPv6ClientCreate example_reply_infinite)
     = Some example_ia_na_infinite
   \<and> ia_addr (DHCPv6ClientSavePacket example_env DHCPv6ClientCreate example_reply_infinite)
     = Some example_iaaddr_infinite
   \<and> lease_fields (lease (DHCPv6ClientSavePacket example_env DHCPv6ClientCreate
                            example_reply_infinite))
     = (0, 0, DHCP_INFINITE_LEASE, DHCP_INFINITE_LEASE)"
  using SavePacket_lease_normalized [OF example_infinite_saved, of example_env DHCPv6ClientCreate]
        example_infinite_saved [of example_env DHCPv6ClientCreate]
  by (simp add: example_infinite_values lease_normalize_amended_def DHCP_INFINITE_LEASE_def)

text \<open>
  The claim as first stated has step 4 leave the preferred lifetime alone. A REPLY whose
  IAADDR has preferred lifetime 100 and valid lifetime INFINITE is stored with preferred
  lifetime INFINITE.
\<close>

theorem SavePacket_lease_spec_counterexample:
  "ia_na (DHCPv6ClientSavePacket example_env DHCPv6ClientCreate example_reply_infinite)
     = Some example_ia_na_infinite
   \<and> ia_addr (DHCPv6ClientSavePacket example_env DHCPv6ClientCreate example_reply_infinite)
     = Some example_iaaddr_infinite
   \<and> lease_fields (lease (DHCPv6ClientSavePacket example_env DHCPv6ClientCreate
                            example_reply_infinite))
     \<noteq> lease_normalize_spec (DHCPv6OptionIA_NAGetT1 example_ia_na_infinite)
          (DHCPv6OptionIA_NAGetT2 example_ia_na_infinite)
          (DHCPv6OptionIAADDRGetPreferredLifetime example_iaaddr_infinite)
          (DHCPv6OptionIAADDRGetValidLifetime example_iaaddr_infinite)
   \<and> lease_preferred_lifetime (lease (DHCPv6ClientSavePacket example_env DHCPv6ClientCreate
                                        example_reply_infinite)) = DHCP_INFINITE_LEASE
   \<and> DHCPv6OptionIAADDRGetPreferredLifetime example_iaaddr_infinite = 100"
proof -
  have g: "fst (get_ia_na_addr (parsed_options example_reply_infinite)) = Some example_ia_na_infinite"
    "snd (get_ia_na_addr (parsed_options example_reply_infinite)) = Some example_iaaddr_infinite"
    by (simp_all add: parsed_options_def example_reply_infinite_parse get_ia_na_addr_def
          example_infinite_ia)
  have "lease_fields (lease (DHCPv6ClientSavePacket example_env DHCPv6ClientCreate
                            example_reply_infinite))
     = lease_normalize_amended 0 0 100 DHCP_INFINITE_LEASE"
    by (simp only: SavePacket_lease_of [OF g] SavePacket_lease_fields example_infinite_values)
  then have f: "lease_fields (lease (DHCPv6ClientSavePacket example_env DHCPv6ClientCreate
                            example_reply_infinite))
     = (0, 0, DHCP_INFINITE_LEASE, DHCP_INFINITE_LEASE)"
    by (simp add: lease_normalize_amended_def DHCP_INFINITE_LEASE_def)
  have s: "lease_normalize_spec 0 0 100 DHCP_INFINITE_LEASE = (0, 0, 100, DHCP_INFINITE_LEASE)"
    by (simp add: lease_normalize_spec_def DHCP_INFINITE_LEASE_def)
  from f have p: "lease_preferred_lifetime (lease (DHCPv6ClientSavePacket example_env
                    DHCPv6ClientCreate example_reply_infinite)) = DHCP_INFINITE_LEASE"
    by (simp add: lease_fields_def)
  show ?thesis
    using f s p example_infinite_saved [of example_env DHCPv6ClientCreate]
    by (simp add: example_infinite_values DHCP_INFINITE_LEASE_def)
qed

subsection \<open>Messages that do not match\<close>

lemmas client_ops =
  DHCPv6ClientSetState_def DHCPv6ClientClearRetransmit_def DHCPv6ClientClearPacket_def
  DHCPv6ClientClearLease_def DHCPv6ClientSetSSID_def get_new_transaction_id_def
  arc4random_next_def random_double_in_range_def DHCPv6SocketEnableReceive_def
  timer_callout_set_def DHCPv6ClientCancelPendingEvents_def DHCPv6ClientPostNotification_def
  DHCPv6ClientRemoveAddress_def

lemma duid_filled_eq:
  "duid_filled e c =
     c\<lparr>duid := (if private_address c \<and> duid c = None then DHCPDUIDCopy e else duid c)\<rparr>"
  by (simp add: duid_filled_def DHCPv6ClientGetDUID_def)

lemma duid_filled_fields:
  "protocol_view (duid_filled e c) = protocol_view c"
  "timer (duid_filled e c) = timer c"
  "receive (duid_filled e c) = receive c"
  "transaction_id (duid_filled e c) = transaction_id c"
  "try_count (duid_filled e c) = try_count c"
  "private_address (duid_filled e c) = private_address c"
  by (simp_all add: duid_filled_eq protocol_view_def)

lemma S_duid_matches_eq:
  "S_duid_matches e c options = (clientid_echoes_duid e c options, duid_filled e c)"
  by (auto simp: S_duid_matches_def clientid_echoes_duid_def duid_filled_def
           split: prod.splits option.splits)

lemma handler_data_unmatched:
  assumes "\<not> message_matches e c f data"
  shows "handler_data f e c data = c \<or> handler_data f e c data = duid_filled e c"
  using assms
  by (cases f)
     (auto simp: handler_data_def message_matches_def expected_msg_type_def serverid_valid_def
        DHCPv6Client_Inform_data_def DHCPv6Client_Decline_data_def
        DHCPv6Client_RenewRebind_data_def DHCPv6Client_Confirm_data_def
        DHCPv6Client_Request_data_def DHCPv6Client_Solicit_data_def S_duid_matches_eq
        split: option.splits)

text \<open>
  Claim C2. For every client, whatever its state, and every received message: if the
  message fails the matching rules of the receive function that is enabled (its type is not
  the expected one, or its transaction id is not the client's, or its CLIENTID is not the
  client's DUID byte for byte, or its SERVERID is missing or not a valid DUID), then the
  client's state, lease, saved packet and assigned address are unchanged, and so are its
  timer, receive function, transaction id and try counter. With no receive function
  enabled nothing is delivered at all. The client is one that has a DUID to compare the
  CLIENTID with.
\<close>

theorem unmatched_message_ignored:
  assumes "\<forall>f. receive c = Some f \<longrightarrow> \<not> message_matches e c f data"
      and "fst (DHCPv6ClientGetDUID e c) \<noteq> None"
  shows "cstate (socket_receive e c data) = cstate c
       \<and> lease (socket_receive e c data) = lease c
       \<and> saved_pkt (socket_receive e c data) = saved_pkt c
       \<and> saved_pkt_len (socket_receive e c data) = saved_pkt_len c
       \<and> saved_options (socket_receive e c data) = saved_options c
       \<and> saved_verified (socket_receive e c data) = saved_verified c
       \<and> our_ip (socket_receive e c data) = our_ip c
       \<and> our_prefix_length (socket_receive e c data) = our_prefix_length c
       \<and> protocol_view (socket_receive e c data) = protocol_view c
       \<and> timer (socket_receive e c data) = timer c
       \<and> receive (socket_receive e c data) = receive c
       \<and> transaction_id (socket_receive e c data) = transaction_id c
       \<and> try_count (socket_receive e c data) = try_count c"
proof (cases "receive c")
  case None
  then show ?thesis by (simp add: socket_receive_def)
next
  case (Some f)
  with assms(1) have "\<not> message_matches e c f data" by simp
  from handler_data_unmatched [OF this] Some
  have "socket_receive e c data = c \<or> socket_receive e c data = duid_filled e c"
    by (simp add: socket_receive_def)
  then show ?thesis
  proof
    assume "socket_receive e c data = c"
    then show ?thesis by simp
  next
    assume d: "socket_receive e c data = duid_filled e c"
    have "protocol_view (duid_filled e c) = protocol_view c" by (rule duid_filled_fields)
    then show ?thesis
      unfolding d by (simp add: duid_filled_eq protocol_view_def)
  qed
qed

subsection \<open>What the handlers leave alone\<close>

lemma Solicit_start_fields:
  "cstate (DHCPv6Client_Solicit_start e c) = kDHCPv6ClientStateSolicit"
  "try_count (DHCPv6Client_Solicit_start e c) = 0"
  "saved_pkt (DHCPv6Client_Solicit_start e c) = None"
  "saved_pkt_len (DHCPv6Client_Solicit_start e c) = 0"
  "saved_options (DHCPv6Client_Solicit_start e c) = None"
  "saved_verified (DHCPv6Client_Solicit_start e c) = False"
  "server_id (DHCPv6Client_Solicit_start e c) = None"
  "ia_na (DHCPv6Client_Solicit_start e c) = None"
  "ia_addr (DHCPv6Client_Solicit_start e c) = None"
  "lease (DHCPv6Client_Solicit_start e c) = zero_lease"
  "our_ip (DHCPv6Client_Solicit_start e c) = our_ip c"
  "our_prefix_length (DHCPv6Client_Solicit_start e c) = our_prefix_length c"
  "receive (DHCPv6Client_Solicit_start e c) = Some Func_Solicit"
  "transaction_id (DHCPv6Client_Solicit_start e c)
     = arc4random e (arc4random_calls c) AND LOWER_24_BITS"
  "mode (DHCPv6Client_Solicit_start e c) = mode c"
  "private_address (DHCPv6Client_Solicit_start e c) = private_address c"
  "duid (DHCPv6Client_Solicit_start e c) = duid c"
  by (simp_all add: DHCPv6Client_Solicit_start_def client_ops Let_def)


lemma GetDUID_snd: "snd (DHCPv6ClientGetDUID e c) = duid_filled e c"
  by (simp add: duid_filled_def)

lemma MakePacket_eq:
  "DHCPv6ClientMakePacket e c = (fst (DHCPv6ClientGetDUID e c) \<noteq> None, duid_filled e c)"
  by (simp add: DHCPv6ClientMakePacket_def duid_filled_def split: prod.splits)

lemma SendPacket_frame:
  "protocol_view (DHCPv6ClientSendPacket e c) = protocol_view c"
  "timer (DHCPv6ClientSendPacket e c) = timer c"
  "receive (DHCPv6ClientSendPacket e c) = receive c"
  "transaction_id (DHCPv6ClientSendPacket e c) = transaction_id c"
  "try_count (DHCPv6ClientSendPacket e c) = try_count c"
  "renew_rebind_time (DHCPv6ClientSendPacket e c) = renew_rebind_time c"
  by (simp_all add: DHCPv6ClientSendPacket_def MakePacket_eq duid_filled_eq protocol_view_def
        DHCPv6SocketTransmit_def split: option.splits)

lemma SendSolicit_frame:
  "protocol_view (DHCPv6ClientSendSolicit e c) = protocol_view c"
  "timer (DHCPv6ClientSendSolicit e c) = timer c"
  "receive (DHCPv6ClientSendSolicit e c) = receive c"
  "transaction_id (DHCPv6ClientSendSolicit e c) = transaction_id c"
  "try_count (DHCPv6ClientSendSolicit e c) = try_count c"
  by (simp_all add: DHCPv6ClientSendSolicit_def MakePacket_eq duid_filled_eq protocol_view_def
        DHCPv6SocketTransmit_def)

lemma NextRetransmit_frame:
  "protocol_view (snd (DHCPv6ClientNextRetransmit e c IRT MRT)) = protocol_view c"
  "timer (snd (DHCPv6ClientNextRetransmit e c IRT MRT)) = timer c"
  "receive (snd (DHCPv6ClientNextRetransmit e c IRT MRT)) = receive c"
  "transaction_id (snd (DHCPv6ClientNextRetransmit e c IRT MRT)) = transaction_id c"
  "try_count (snd (DHCPv6ClientNextRetransmit e c IRT MRT)) = try_count c + 1"
  "renew_rebind_time (snd (DHCPv6ClientNextRetransmit e c IRT MRT)) = renew_rebind_time c"
  "start_time (snd (DHCPv6ClientNextRetransmit e c IRT MRT)) = start_time c"
  by (simp_all add: DHCPv6ClientNextRetransmit_def DHCPv6InitialTimeout_def
        DHCPv6SubsequentTimeout_def DHCPv6_RAND_def random_double_in_range_def
        arc4random_next_def protocol_view_def Let_def split: prod.splits)

lemma protocol_view_cstate: "protocol_view c' = protocol_view c \<Longrightarrow> cstate c' = cstate c"
  by (simp add: protocol_view_def)

lemma protocol_view_fields:
  assumes "protocol_view c' = protocol_view c"
  shows "cstate c' = cstate c" "lease c' = lease c" "saved_pkt c' = saved_pkt c"
    "saved_pkt_len c' = saved_pkt_len c" "saved_options c' = saved_options c"
    "saved_verified c' = saved_verified c" "server_id c' = server_id c" "ia_na c' = ia_na c"
    "ia_addr c' = ia_addr c" "our_ip c' = our_ip c" "our_prefix_length c' = our_prefix_length c"
  using assms by (simp_all add: protocol_view_def)

lemma Request_timeout_view:
  assumes "try_count c < DHCPv6_REQ_MAX_RC e"
  shows "protocol_view (DHCPv6Client_Request_timeout e c) = protocol_view c"
    and "receive (DHCPv6Client_Request_timeout e c) = receive c"
    and "try_count (DHCPv6Client_Request_timeout e c) = try_count c + 1"
proof -
  obtain rt c1 where n: "DHCPv6ClientNextRetransmit e c (DHCPv6_REQ_TIMEOUT e) (DHCPv6_REQ_MAX_RT e) = (rt, c1)"
    by (cases "DHCPv6ClientNextRetransmit e c (DHCPv6_REQ_TIMEOUT e) (DHCPv6_REQ_MAX_RT e)")
  then have c1: "c1 = snd (DHCPv6ClientNextRetransmit e c (DHCPv6_REQ_TIMEOUT e) (DHCPv6_REQ_MAX_RT e))"
    by simp
  have r: "DHCPv6Client_Request_timeout e c
        = DHCPv6ClientSendPacket e (timer_callout_set c1 rt Func_Request IFEventID_timeout_e)"
    using assms n by (simp add: DHCPv6Client_Request_timeout_def)
  have v: "protocol_view (timer_callout_set c1 rt Func_Request IFEventID_timeout_e) = protocol_view c"
    using NextRetransmit_frame(1) [of e c "DHCPv6_REQ_TIMEOUT e" "DHCPv6_REQ_MAX_RT e"]
    by (simp add: c1 [symmetric] protocol_view_def timer_callout_set_def)
  show "protocol_view (DHCPv6Client_Request_timeout e c) = protocol_view c"
    by (simp only: r SendPacket_frame v)
  show "receive (DHCPv6Client_Request_timeout e c) = receive c"
    using NextRetransmit_frame(3) [of e c "DHCPv6_REQ_TIMEOUT e" "DHCPv6_REQ_MAX_RT e"]
    by (simp add: r SendPacket_frame c1 [symmetric] timer_callout_set_def)
  show "try_count (DHCPv6Client_Request_timeout e c) = try_count c + 1"
    using NextRetransmit_frame(5) [of e c "DHCPv6_REQ_TIMEOUT e" "DHCPv6_REQ_MAX_RT e"]
    by (simp add: r SendPacket_frame c1 [symmetric] timer_callout_set_def)
qed

lemma Request_start_fields:
  assumes "0 < DHCPv6_REQ_MAX_RC e"
  shows "cstate (DHCPv6Client_Request_start e c) = kDHCPv6ClientStateRequest"
    and "saved_pkt (DHCPv6Client_Request_start e c) = saved_pkt c"
    and "saved_options (DHCPv6Client_Request_start e c) = saved_options c"
    and "lease (DHCPv6Client_Request_start e c) = lease c"
    and "our_ip (DHCPv6Client_Request_start e c) = our_ip c"
    and "receive (DHCPv6Client_Request_start e c) = Some Func_Request"
    and "try_count (DHCPv6Client_Request_start e c) = 1"
proof -
  define c5 where "c5 = DHCPv6SocketEnableReceive
     ((DHCPv6ClientClearRetransmit (DHCPv6ClientSetState c kDHCPv6ClientStateRequest))
        \<lparr>arc4random_calls := arc4random_calls c + 1,
         transaction_id := arc4random e (arc4random_calls c) AND LOWER_24_BITS,
         start_time := current_time e\<rparr>) Func_Request"
  have r: "DHCPv6Client_Request_start e c = DHCPv6Client_Request_timeout e c5"
    by (simp add: DHCPv6Client_Request_start_def c5_def client_ops Let_def)
  have t: "try_count c5 < DHCPv6_REQ_MAX_RC e" using assms by (simp add: c5_def client_ops)
  note v = Request_timeout_view [OF t]
  have p: "cstate c5 = kDHCPv6ClientStateRequest"
    "receive c5 = Some Func_Request" "try_count c5 = 0"
    by (simp_all add: c5_def client_ops)
  show "cstate (DHCPv6Client_Request_start e c) = kDHCPv6ClientStateRequest"
    using protocol_view_fields(1) [OF v(1)] p by (simp add: r)
  show "saved_pkt (DHCPv6Client_Request_start e c) = saved_pkt c"
    using protocol_view_fields(3) [OF v(1)] by (simp add: r c5_def client_ops)
  show "saved_options (DHCPv6Client_Request_start e c) = saved_options c"
    using protocol_view_fields(5) [OF v(1)] by (simp add: r c5_def client_ops)
  show "lease (DHCPv6Client_Request_start e c) = lease c"
    using protocol_view_fields(2) [OF v(1)] by (simp add: r c5_def client_ops)
  show "our_ip (DHCPv6Client_Request_start e c) = our_ip c"
    using protocol_view_fields(10) [OF v(1)] by (simp add: r c5_def client_ops)
  show "receive (DHCPv6Client_Request_start e c) = Some Func_Request"
    using v(2) p by (simp add: r)
  show "try_count (DHCPv6Client_Request_start e c) = 1"
    using v(3) p by (simp add: r)
qed

subsection \<open>An ADVERTISE in Solicit\<close>

lemma Solicit_data_acceptable:
  assumes "advertise_acceptable e c data"
  shows "DHCPv6Client_Solicit_data e c data =
     (if saved_at_least_as_preferred c (get_preference_value_from_options (rd_options data))
      then duid_filled e c
      else if try_count c > 1
              \<or> get_preference_value_from_options (rd_options data)
                  = kDHCPv6OptionPREFERENCEMaxValue
      then DHCPv6Client_Request_start e (DHCPv6ClientSavePacket e (duid_filled e c) data)
      else DHCPv6ClientSavePacket e (duid_filled e c) data)"
  using assms
  by (auto simp: DHCPv6Client_Solicit_data_def advertise_acceptable_def message_matches_def
        expected_msg_type_def serverid_valid_def S_duid_matches_eq saved_at_least_as_preferred_def
        duid_filled_eq SavePacket_other Let_def
        split: option.splits)

text \<open>
  Claim C1, amended. In Solicit, when a matching ADVERTISE arrives whose top-level status
  code can be read and is not NoAddrsAvail and which has a usable IA_NA and IAADDR: if an
  ADVERTISE is saved whose PREFERENCE (0 when absent) is not below the new one's, nothing
  changes; if none is saved, or the new PREFERENCE is strictly greater than the saved one's,
  the new message is saved, and then the client goes to Request at once if and only if the
  try counter is above 1 (it has already retransmitted) or the preference is 255, and
  otherwise keeps waiting in its state.
\<close>

theorem Solicit_advertise_handling:
  assumes "advertise_acceptable e c data" and "0 < DHCPv6_REQ_MAX_RC e"
  shows "(\<forall>saved. saved_options c = Some saved
            \<and> \<not> get_preference_value_from_options saved
                  < get_preference_value_from_options (rd_options data)
          \<longrightarrow> protocol_view (DHCPv6Client_Solicit_data e c data) = protocol_view c
              \<and> try_count (DHCPv6Client_Solicit_data e c data) = try_count c
              \<and> receive (DHCPv6Client_Solicit_data e c data) = receive c)
       \<and> (saved_options c = None
            \<or> (\<exists>saved. saved_options c = Some saved
                  \<and> get_preference_value_from_options saved
                      < get_preference_value_from_options (rd_options data))
          \<longrightarrow> saved_pkt (DHCPv6Client_Solicit_data e c data) = Some (rd_pkt data)
              \<and> (try_count c > 1
                    \<or> get_preference_value_from_options (rd_options data)
                        = kDHCPv6OptionPREFERENCEMaxValue
                  \<longrightarrow> cstate (DHCPv6Client_Solicit_data e c data) = kDHCPv6ClientStateRequest)
              \<and> (\<not> (try_count c > 1
                       \<or> get_preference_value_from_options (rd_options data)
                           = kDHCPv6OptionPREFERENCEMaxValue)
                  \<longrightarrow> cstate (DHCPv6Client_Solicit_data e c data) = cstate c
                      \<and> try_count (DHCPv6Client_Solicit_data e c data) = try_count c
                      \<and> receive (DHCPv6Client_Solicit_data e c data) = receive c))"
proof (intro conjI allI impI)
  fix saved
  assume a: "saved_options c = Some saved
            \<and> \<not> get_preference_value_from_options saved
                  < get_preference_value_from_options (rd_options data)"
  then have "saved_at_least_as_preferred c (get_preference_value_from_options (rd_options data))"
    by (simp add: saved_at_least_as_preferred_def not_less)
  then have r: "DHCPv6Client_Solicit_data e c data = duid_filled e c"
    by (simp add: Solicit_data_acceptable [OF assms(1)])
  show "protocol_view (DHCPv6Client_Solicit_data e c data) = protocol_view c"
    "try_count (DHCPv6Client_Solicit_data e c data) = try_count c"
    "receive (DHCPv6Client_Solicit_data e c data) = receive c"
    by (simp_all only: r duid_filled_fields)
next
  assume a: "saved_options c = None
            \<or> (\<exists>saved. saved_options c = Some saved
                  \<and> get_preference_value_from_options saved
                      < get_preference_value_from_options (rd_options data))"
  then have n: "\<not> saved_at_least_as_preferred c (get_preference_value_from_options (rd_options data))"
    by (auto simp add: saved_at_least_as_preferred_def)
  show "saved_pkt (DHCPv6Client_Solicit_data e c data) = Some (rd_pkt data)"
    using n by (simp add: Solicit_data_acceptable [OF assms(1)] Request_start_fields [OF assms(2)]
                  SavePacket_saved)
  show "cstate (DHCPv6Client_Solicit_data e c data) = kDHCPv6ClientStateRequest"
    if "try_count c > 1 \<or> get_preference_value_from_options (rd_options data)
                        = kDHCPv6OptionPREFERENCEMaxValue"
    using n that by (auto simp add: Solicit_data_acceptable [OF assms(1)]
                       Request_start_fields [OF assms(2)])
  show "cstate (DHCPv6Client_Solicit_data e c data) = cstate c"
    if "\<not> (try_count c > 1 \<or> get_preference_value_from_options (rd_options data)
                        = kDHCPv6OptionPREFERENCEMaxValue)"
    using n that protocol_view_fields(1) [OF duid_filled_fields(1), of e c]
    by (simp add: Solicit_data_acceptable [OF assms(1)] SavePacket_other)
  show "try_count (DHCPv6Client_Solicit_data e c data) = try_count c"
    if "\<not> (try_count c > 1 \<or> get_preference_value_from_options (rd_options data)
                        = kDHCPv6OptionPREFERENCEMaxValue)"
    using n that by (simp add: Solicit_data_acceptable [OF assms(1)] SavePacket_other
                       duid_filled_fields)
  show "receive (DHCPv6Client_Solicit_data e c data) = receive c"
    if "\<not> (try_count c > 1 \<or> get_preference_value_from_options (rd_options data)
                        = kDHCPv6OptionPREFERENCEMaxValue)"
    using n that by (simp add: Solicit_data_acceptable [OF assms(1)] SavePacket_other
                       duid_filled_fields)
qed

lemma example_advertise_ia:
  "get_ia_na_addr_code (rd_options example_advertise)
     = (Some example_ia_na, Some example_iaaddr, kDHCPv6StatusCodeSuccess)"
proof -
  have st: "DHCPv6OptionListGetStatusCode
     [(kDHCPv6OPTION_IAADDR, example_iaaddr_zero), (kDHCPv6OPTION_IAADDR, example_iaaddr)]
     = Some kDHCPv6StatusCodeSuccess"
    by (simp add: DHCPv6OptionListGetStatusCode_def DHCPv6OptionListGetOptionDataAndLength_def
          option_codes)
  show ?thesis
    by (simp add: get_ia_na_addr_code_def DHCPv6OptionListGetOptionDataAndLength_def
          example_advertise_def example_message_def option_codes
          example_nested_parse [unfolded option_codes] example_scan [unfolded option_codes]
          st [unfolded option_codes] example_ia_na_T1_T2 example_ia_na_length
          DHCPv6OptionIA_NA_MIN_LENGTH_def)
qed

lemma example_solicit_client_fields:
  "cstate (example_solicit_client n) = kDHCPv6ClientStateSolicit"
  "try_count (example_solicit_client n) = n"
  "transaction_id (example_solicit_client n) = 0"
  "saved_options (example_solicit_client n) = None"
  "saved_pkt (example_solicit_client n) = None"
  "private_address (example_solicit_client n) = False"
  "receive (example_solicit_client n) = Some Func_Solicit"
  by (simp_all add: example_solicit_client_def Solicit_start_fields example_env_def
        DHCPv6ClientCreate_def)

lemma example_advertise_acceptable:
  "advertise_acceptable example_env (example_solicit_client n) example_advertise"
proof -
  have m: "message_matches example_env (example_solicit_client n) Func_Solicit example_advertise"
    by (simp add: message_matches_def expected_msg_type_def clientid_echoes_duid_def
          serverid_valid_def DHCPv6ClientGetDUID_def example_solicit_client_fields
          DHCPv6OptionListGetOptionDataAndLength_def example_advertise_def example_message_def
          DHCPv6PacketGetMessageType_def DHCPv6PacketGetTransactionID_def be_nat_def
          option_codes example_env_def example_server_duid_def)
  have s: "DHCPv6OptionListGetStatusCode (rd_options example_advertise)
             = Some kDHCPv6StatusCodeSuccess"
    by (simp add: DHCPv6OptionListGetStatusCode_def DHCPv6OptionListGetOptionDataAndLength_def
          example_advertise_def example_message_def option_codes)
  show ?thesis
    by (simp add: advertise_acceptable_def m s get_ia_na_addr_def example_advertise_ia
          kDHCPv6StatusCodeSuccess_def kDHCPv6StatusCodeNoAddrsAvail_def)
qed

lemma example_advertise_preference:
  "get_preference_value_from_options (rd_options example_advertise) = 0"
  by (simp add: get_preference_value_from_options_def DHCPv6OptionListGetOptionDataAndLength_def
        example_advertise_def example_message_def option_codes
        kDHCPv6OptionPREFERENCEMinValue_def)

theorem Solicit_advertise_witness:
  "advertise_acceptable example_env (example_solicit_client 2) example_advertise
   \<and> 0 < DHCPv6_REQ_MAX_RC example_env
   \<and> saved_options (example_solicit_client 2) = None
   \<and> try_count (example_solicit_client 2) > 1
   \<and> saved_pkt (DHCPv6Client_Solicit_data example_env (example_solicit_client 2)
                  example_advertise) = Some (rd_pkt example_advertise)
   \<and> cstate (DHCPv6Client_Solicit_data example_env (example_solicit_client 2)
                example_advertise) = kDHCPv6ClientStateRequest"
proof -
  have r: "0 < DHCPv6_REQ_MAX_RC example_env" by (simp add: example_env_def)
  from Solicit_advertise_handling [OF example_advertise_acceptable r, of 2]
  show ?thesis
    using example_advertise_acceptable [of 2] r
    by (simp add: example_solicit_client_fields)
qed

text \<open>
  The claim as first stated sends the client to Request on the first try. On the first try
  (try counter 1) with an ADVERTISE that has no PREFERENCE option the client saves the
  message and stays in Solicit; on a later try it goes to Request.
\<close>

theorem Solicit_first_try_counterexample:
  "advertise_acceptable example_env (example_solicit_client 1) example_advertise
   \<and> try_count (example_solicit_client 1) = 1
   \<and> cstate (example_solicit_client 1) = kDHCPv6ClientStateSolicit
   \<and> get_preference_value_from_options (rd_options example_advertise) = 0
   \<and> saved_pkt (DHCPv6Client_Solicit_data example_env (example_solicit_client 1)
                  example_advertise) = Some (rd_pkt example_advertise)
   \<and> cstate (DHCPv6Client_Solicit_data example_env (example_solicit_client 1)
                example_advertise) = kDHCPv6ClientStateSolicit
   \<and> cstate (DHCPv6Client_Solicit_data example_env (example_solicit_client 2)
                example_advertise) = kDHCPv6ClientStateRequest"
proof -
  have r: "0 < DHCPv6_REQ_MAX_RC example_env" by (simp add: example_env_def)
  have n: "\<not> saved_at_least_as_preferred (example_solicit_client k) p" for k p
    by (simp add: saved_at_least_as_preferred_def example_solicit_client_fields)
  have one: "DHCPv6Client_Solicit_data example_env (example_solicit_client 1) example_advertise
      = DHCPv6ClientSavePacket example_env (duid_filled example_env (example_solicit_client 1))
          example_advertise"
    by (simp add: Solicit_data_acceptable [OF example_advertise_acceptable] n
          example_solicit_client_fields example_advertise_preference
          kDHCPv6OptionPREFERENCEMaxValue_def)
  have two: "DHCPv6Client_Solicit_data example_env (example_solicit_client 2) example_advertise
      = DHCPv6Client_Request_start example_env
          (DHCPv6ClientSavePacket example_env (duid_filled example_env (example_solicit_client 2))
             example_advertise)"
    by (simp add: Solicit_data_acceptable [OF example_advertise_acceptable] n
          example_solicit_client_fields)
  show ?thesis
    using example_advertise_acceptable [of 1]
    by (simp add: one two SavePacket_saved SavePacket_other Request_start_fields [OF r]
          example_solicit_client_fields example_advertise_preference duid_filled_eq)
qed

theorem unmatched_message_witness:
  "receive (example_solicit_client 1) = Some Func_Solicit
   \<and> fst (DHCPv6ClientGetDUID example_env (example_solicit_client 1)) = Some example_duid
   \<and> \<not> message_matches example_env (example_solicit_client 1) Func_Solicit example_reply
   \<and> cstate (socket_receive example_env (example_solicit_client 1) example_reply)
       = kDHCPv6ClientStateSolicit
   \<and> saved_pkt (socket_receive example_env (example_solicit_client 1) example_reply) = None
   \<and> try_count (socket_receive example_env (example_solicit_client 1) example_reply) = 1"
proof -
  have h: "\<forall>f. receive (example_solicit_client 1) = Some f
         \<longrightarrow> \<not> message_matches example_env (example_solicit_client 1) f example_reply"
    by (simp add: example_solicit_client_fields message_matches_def expected_msg_type_def
          example_reply_def example_message_def DHCPv6PacketGetMessageType_def
          kDHCPv6MessageREPLY_def kDHCPv6MessageADVERTISE_def)
  have d: "fst (DHCPv6ClientGetDUID example_env (example_solicit_client 1)) = Some example_duid"
    by (simp add: DHCPv6ClientGetDUID_def example_solicit_client_fields example_env_def)
  then have d': "fst (DHCPv6ClientGetDUID example_env (example_solicit_client 1)) \<noteq> None"
    by simp
  from unmatched_message_ignored [OF h d'] h d show ?thesis
    by (simp add: example_solicit_client_fields)
qed

subsection \<open>Starting the client\<close>



lemma LeaseStillValid_False:
  "\<not> lease_still_valid_spec (lease c) now \<Longrightarrow>
     DHCPv6ClientLeaseStillValid c now = (False, c)
     \<or> DHCPv6ClientLeaseStillValid c now
          = (False, (DHCPv6ClientClearPacket c)\<lparr>lease := zero_lease\<rparr>)"
  by (auto simp: DHCPv6ClientLeaseStillValid_def lease_still_valid_spec_def Let_def
        DHCPv6ClientClearPacket_def DHCPv6ClientClearLease_def DHCPv6ClientSetSSID_def
        zero_lease_def)







subsection \<open>Waking up\<close>












subsection \<open>A REPLY in Request\<close>

lemma uint32_of_double_0: "uint32_of_double 0 = 0"
  by (simp add: uint32_of_double_def)

lemma HandleAddressChanged_fresh:
  assumes "cstate c = kDHCPv6ClientStateBound"
      and "lease_start (lease c) = current_time e"
      and "\<not> (case find (\<lambda>scan. our_ip c = addr scan) l of
                None \<Rightarrow> False | Some scan \<Rightarrow> addr_duplicated scan)"
  shows "cstate (DHCPv6ClientHandleAddressChanged e c l) = kDHCPv6ClientStateBound
       \<and> saved_pkt (DHCPv6ClientHandleAddressChanged e c l) = saved_pkt c
       \<and> saved_options (DHCPv6ClientHandleAddressChanged e c l) = saved_options c
       \<and> saved_verified (DHCPv6ClientHandleAddressChanged e c l) = saved_verified c
       \<and> lease (DHCPv6ClientHandleAddressChanged e c l) = lease c"
  using assms
  by (simp add: DHCPv6ClientHandleAddressChanged_def Let_def client_ops split: option.splits)

lemma Bound_set_address_fresh:
  assumes "cstate c = kDHCPv6ClientStateBound"
      and "lease_start (lease c) = current_time e"
      and "\<not> reported_duplicated e a"
  shows "cstate (Bound_set_address e c a t vl pl) = kDHCPv6ClientStateBound
       \<and> saved_pkt (Bound_set_address e c a t vl pl) = saved_pkt c
       \<and> saved_options (Bound_set_address e c a t vl pl) = saved_options c
       \<and> saved_verified (Bound_set_address e c a t vl pl) = saved_verified c
       \<and> lease (Bound_set_address e c a t vl pl) = lease c"
proof -
  define c2 where "c2 = (if our_ip c \<noteq> 0 \<and> our_ip c \<noteq> a
                      then c\<lparr>kernel := kernel c @ [Difaddr (our_ip c)]\<rparr>
                      else c)\<lparr>kernel := kernel (if our_ip c \<noteq> 0 \<and> our_ip c \<noteq> a
                      then c\<lparr>kernel := kernel c @ [Difaddr (our_ip c)]\<rparr>
                      else c) @ [Aifaddr a (S_get_prefix_length e) vl pl],
                    our_ip := a, our_prefix_length := S_get_prefix_length e\<rparr>"
  have f: "cstate c2 = kDHCPv6ClientStateBound" "lease c2 = lease c" "our_ip c2 = a"
    "saved_pkt c2 = saved_pkt c" "saved_options c2 = saved_options c"
    "saved_verified c2 = saved_verified c"
    using assms(1) by (simp_all add: c2_def)
  have h: "cstate (DHCPv6ClientHandleAddressChanged e c2 (inet6_addrlist e)) = kDHCPv6ClientStateBound
       \<and> saved_pkt (DHCPv6ClientHandleAddressChanged e c2 (inet6_addrlist e)) = saved_pkt c2
       \<and> saved_options (DHCPv6ClientHandleAddressChanged e c2 (inet6_addrlist e)) = saved_options c2
       \<and> saved_verified (DHCPv6ClientHandleAddressChanged e c2 (inet6_addrlist e)) = saved_verified c2
       \<and> lease (DHCPv6ClientHandleAddressChanged e c2 (inet6_addrlist e)) = lease c2"
    by (rule HandleAddressChanged_fresh)
       (use assms(2,3) in \<open>simp_all add: f reported_duplicated_def\<close>)
  show ?thesis
    using assms(1) h [unfolded f]
    by (simp add: Bound_set_address_def Let_def client_ops c2_def [symmetric])
qed

lemma Bound_start_fresh:
  assumes "ia_addr c = Some ad"
      and "lease_start (lease c) = current_time e"
      and "lease_valid_lifetime (lease c) \<noteq> 0"
      and "\<not> reported_duplicated e (DHCPv6OptionIAADDRGetAddress ad)"
  shows "cstate (DHCPv6Client_Bound_start e c) = kDHCPv6ClientStateBound
       \<and> saved_pkt (DHCPv6Client_Bound_start e c) = saved_pkt c
       \<and> saved_options (DHCPv6Client_Bound_start e c) = saved_options c
       \<and> saved_verified (DHCPv6Client_Bound_start e c)
       \<and> lease (DHCPv6Client_Bound_start e c) = (lease c)\<lparr>lease_valid := True\<rparr>"
proof -
  define c3 where "c3 = DHCPv6ClientCancelPendingEvents
     ((DHCPv6ClientSetState c kDHCPv6ClientStateBound)
        \<lparr>lease := (lease c)\<lparr>lease_valid := True\<rparr>, saved_verified := True\<rparr>)"
  have f3: "cstate c3 = kDHCPv6ClientStateBound" "saved_pkt c3 = saved_pkt c"
    "saved_options c3 = saved_options c" "saved_verified c3"
    "lease c3 = (lease c)\<lparr>lease_valid := True\<rparr>"
    by (simp_all add: c3_def client_ops)
  have nz: "\<not> lease_valid_lifetime (lease c) \<le> 0" using assms(3) by simp
  have "\<exists>t vl pl. DHCPv6Client_Bound_start e c
                    = Bound_set_address e c3 (DHCPv6OptionIAADDRGetAddress ad) t vl pl"
    using assms(1,2) nz
    by (auto simp add: DHCPv6Client_Bound_start_def Let_def c3_def client_ops uint32_of_double_0)
  then obtain t vl pl where b: "DHCPv6Client_Bound_start e c
                    = Bound_set_address e c3 (DHCPv6OptionIAADDRGetAddress ad) t vl pl" by blast
  have "lease_start (lease c3) = current_time e" using assms(2) by (simp add: f3)
  from Bound_set_address_fresh [OF f3(1) this assms(4), of t vl pl]
  show ?thesis by (simp add: b f3)
qed

lemma Request_data_matched:
  assumes "message_matches e c Func_Request data"
  shows "DHCPv6Client_Request_data e c data =
     (case DHCPv6OptionListGetStatusCode (rd_options data) of
        None \<Rightarrow> duid_filled e c
      | Some code \<Rightarrow>
          if code = kDHCPv6StatusCodeNoAddrsAvail then duid_filled e c
          else if snd (snd (get_ia_na_addr_code (rd_options data))) = kDHCPv6StatusCodeNotOnLink
            then DHCPv6Client_Solicit_start e (duid_filled e c)
          else if fst (get_ia_na_addr_code (rd_options data)) = None then duid_filled e c
          else DHCPv6Client_Bound_start e (DHCPv6ClientSavePacket e (duid_filled e c) data))"
  using assms
  by (auto simp: DHCPv6Client_Request_data_def message_matches_def expected_msg_type_def
        serverid_valid_def S_duid_matches_eq split: option.splits prod.splits)

lemma parsed_options_delivered: "socket_delivered data \<Longrightarrow> parsed_options data = rd_options data"
  by (simp add: socket_delivered_def parsed_options_def)

lemma lease_normalize_amended_valid:
  "valid \<noteq> 0 \<Longrightarrow> snd (snd (snd (lease_normalize_amended T1 T2 preferred valid))) \<noteq> 0"
  by (simp add: lease_normalize_amended_def Let_def DHCP_INFINITE_LEASE_def split: prod.splits)

lemma SavePacket_usable:
  assumes "socket_delivered data"
      and "get_ia_na_addr_code (rd_options data) = (Some na, r_ad, code)"
  shows "\<exists>ad. r_ad = Some ad
       \<and> ia_addr (DHCPv6ClientSavePacket e c data) = Some ad
       \<and> ia_na (DHCPv6ClientSavePacket e c data) = Some na
       \<and> lease_start (lease (DHCPv6ClientSavePacket e c data)) = current_time e
       \<and> lease_valid_lifetime (lease (DHCPv6ClientSavePacket e c data)) \<noteq> 0"
proof -
  from get_ia_na_addr_code_Some [OF assms(2)] obtain ia_na_options ad where
    ad: "r_ad = Some ad"
    "first_usable_iaaddr (options_with_code ia_na_options kDHCPv6OPTION_IAADDR) = Some ad"
    by blast
  from first_usable_iaaddr_Some [OF ad(2)] have v: "DHCPv6OptionIAADDRGetValidLifetime ad \<noteq> 0"
    by simp
  have g: "fst (get_ia_na_addr (parsed_options data)) = Some na"
    "snd (get_ia_na_addr (parsed_options data)) = Some ad"
    using assms ad(1) by (simp_all add: parsed_options_delivered get_ia_na_addr_def)
  have l: "lease (DHCPv6ClientSavePacket e c data) =
     SavePacket_lease (current_time e) (zero_lease\<lparr>lease_ssid := ServiceGetSSID e\<rparr>)
       (DHCPv6OptionIA_NAGetT1 na) (DHCPv6OptionIA_NAGetT2 na)
       (DHCPv6OptionIAADDRGetValidLifetime ad) (DHCPv6OptionIAADDRGetPreferredLifetime ad)"
    by (rule SavePacket_lease_of [OF g])
  have "lease_fields (lease (DHCPv6ClientSavePacket e c data))
      = lease_normalize_amended (DHCPv6OptionIA_NAGetT1 na) (DHCPv6OptionIA_NAGetT2 na)
          (DHCPv6OptionIAADDRGetPreferredLifetime ad) (DHCPv6OptionIAADDRGetValidLifetime ad)"
    by (simp only: l SavePacket_lease_fields)
  with lease_normalize_amended_valid [OF v]
  have "lease_valid_lifetime (lease (DHCPv6ClientSavePacket e c data)) \<noteq> 0"
    by (simp add: lease_fields_def) (metis snd_conv)
  moreover have "lease_start (lease (DHCPv6ClientSavePacket e c data)) = current_time e"
    by (simp only: l SavePacket_lease_start)
  ultimately show ?thesis using ad(1) g by (simp add: SavePacket_saved)
qed

text \<open>
  Claim C5, amended. In Request, a matching REPLY is handled in this order. If its
  top-level status code cannot be read or is NoAddrsAvail, the message is ignored: nothing
  changes. Otherwise, if the status code that the IA_NA extraction reports for the IA_NA is
  NotOnLink, the client restarts Solicit. Otherwise, if the extraction finds no usable IA_NA
  and IAADDR, the message is dropped and nothing changes. Otherwise the packet is saved and
  the Bound entry is run; for a message as the socket delivers it the client then is in
  Bound with that packet saved and a valid lease, unless the kernel's address list already
  flags the new address as duplicated. An IA_NA status other than NotOnLink, NoAddrsAvail
  included, does not by itself make the binding unusable.
\<close>

theorem Request_reply_precedence:
  assumes "message_matches e c Func_Request data"
  shows "(DHCPv6OptionListGetStatusCode (rd_options data) = None
            \<or> DHCPv6OptionListGetStatusCode (rd_options data)
                 = Some kDHCPv6StatusCodeNoAddrsAvail
          \<longrightarrow> protocol_view (DHCPv6Client_Request_data e c data) = protocol_view c
              \<and> timer (DHCPv6Client_Request_data e c data) = timer c
              \<and> receive (DHCPv6Client_Request_data e c data) = receive c
              \<and> transaction_id (DHCPv6Client_Request_data e c data) = transaction_id c
              \<and> try_count (DHCPv6Client_Request_data e c data) = try_count c)
       \<and> (\<forall>code. DHCPv6OptionListGetStatusCode (rd_options data) = Some code
                 \<and> code \<noteq> kDHCPv6StatusCodeNoAddrsAvail
          \<longrightarrow> (snd (snd (get_ia_na_addr_code (rd_options data))) = kDHCPv6StatusCodeNotOnLink
                \<longrightarrow> DHCPv6Client_Request_data e c data
                      = DHCPv6Client_Solicit_start e (duid_filled e c)
                    \<and> cstate (DHCPv6Client_Request_data e c data) = kDHCPv6ClientStateSolicit
                    \<and> saved_pkt (DHCPv6Client_Request_data e c data) = None
                    \<and> try_count (DHCPv6Client_Request_data e c data) = 0)
              \<and> (snd (snd (get_ia_na_addr_code (rd_options data))) \<noteq> kDHCPv6StatusCodeNotOnLink
                    \<and> fst (get_ia_na_addr_code (rd_options data)) = None
                \<longrightarrow> protocol_view (DHCPv6Client_Request_data e c data) = protocol_view c
                    \<and> timer (DHCPv6Client_Request_data e c data) = timer c
                    \<and> receive (DHCPv6Client_Request_data e c data) = receive c
                    \<and> transaction_id (DHCPv6Client_Request_data e c data) = transaction_id c
                    \<and> try_count (DHCPv6Client_Request_data e c data) = try_count c)
              \<and> (snd (snd (get_ia_na_addr_code (rd_options data))) \<noteq> kDHCPv6StatusCodeNotOnLink
                    \<and> fst (get_ia_na_addr_code (rd_options data)) \<noteq> None
                \<longrightarrow> DHCPv6Client_Request_data e c data
                      = DHCPv6Client_Bound_start e
                          (DHCPv6ClientSavePacket e (duid_filled e c) data)
                    \<and> (\<forall>ad. fst (snd (get_ia_na_addr_code (rd_options data))) = Some ad
                             \<and> socket_delivered data
                             \<and> \<not> reported_duplicated e (DHCPv6OptionIAADDRGetAddress ad)
                        \<longrightarrow> cstate (DHCPv6Client_Request_data e c data)
                              = kDHCPv6ClientStateBound
                            \<and> saved_pkt (DHCPv6Client_Request_data e c data)
                                = Some (rd_pkt data)
                            \<and> saved_verified (DHCPv6Client_Request_data e c data)
                            \<and> lease_valid (lease (DHCPv6Client_Request_data e c data)))))"
proof (intro conjI allI impI)
  assume a: "DHCPv6OptionListGetStatusCode (rd_options data) = None
            \<or> DHCPv6OptionListGetStatusCode (rd_options data)
                 = Some kDHCPv6StatusCodeNoAddrsAvail"
  then have r: "DHCPv6Client_Request_data e c data = duid_filled e c"
    by (auto simp add: Request_data_matched [OF assms])
  show "protocol_view (DHCPv6Client_Request_data e c data) = protocol_view c"
    "timer (DHCPv6Client_Request_data e c data) = timer c"
    "receive (DHCPv6Client_Request_data e c data) = receive c"
    "transaction_id (DHCPv6Client_Request_data e c data) = transaction_id c"
    "try_count (DHCPv6Client_Request_data e c data) = try_count c"
    by (simp_all only: r duid_filled_fields)
next
  fix code
  assume s: "DHCPv6OptionListGetStatusCode (rd_options data) = Some code
                 \<and> code \<noteq> kDHCPv6StatusCodeNoAddrsAvail"
  {
    assume n: "snd (snd (get_ia_na_addr_code (rd_options data))) = kDHCPv6StatusCodeNotOnLink"
    with s show r: "DHCPv6Client_Request_data e c data
                      = DHCPv6Client_Solicit_start e (duid_filled e c)"
      by (simp add: Request_data_matched [OF assms])
    show "cstate (DHCPv6Client_Request_data e c data) = kDHCPv6ClientStateSolicit"
      "saved_pkt (DHCPv6Client_Request_data e c data) = None"
      "try_count (DHCPv6Client_Request_data e c data) = 0"
      by (simp_all only: r Solicit_start_fields)
  }
  {
    assume n: "snd (snd (get_ia_na_addr_code (rd_options data))) \<noteq> kDHCPv6StatusCodeNotOnLink
                    \<and> fst (get_ia_na_addr_code (rd_options data)) = None"
    with s have r: "DHCPv6Client_Request_data e c data = duid_filled e c"
      by (simp add: Request_data_matched [OF assms])
    show "protocol_view (DHCPv6Client_Request_data e c data) = protocol_view c"
      "timer (DHCPv6Client_Request_data e c data) = timer c"
      "receive (DHCPv6Client_Request_data e c data) = receive c"
      "transaction_id (DHCPv6Client_Request_data e c data) = transaction_id c"
      "try_count (DHCPv6Client_Request_data e c data) = try_count c"
      by (simp_all only: r duid_filled_fields)
  }
  {
    assume n: "snd (snd (get_ia_na_addr_code (rd_options data))) \<noteq> kDHCPv6StatusCodeNotOnLink
                    \<and> fst (get_ia_na_addr_code (rd_options data)) \<noteq> None"
    with s show r: "DHCPv6Client_Request_data e c data
                      = DHCPv6Client_Bound_start e
                          (DHCPv6ClientSavePacket e (duid_filled e c) data)"
      by (auto simp add: Request_data_matched [OF assms])
    fix ad
    assume b: "fst (snd (get_ia_na_addr_code (rd_options data))) = Some ad
                             \<and> socket_delivered data
                             \<and> \<not> reported_duplicated e (DHCPv6OptionIAADDRGetAddress ad)"
    from n obtain na where na: "fst (get_ia_na_addr_code (rd_options data)) = Some na" by auto
    with b have g: "get_ia_na_addr_code (rd_options data)
        = (Some na, Some ad, snd (snd (get_ia_na_addr_code (rd_options data))))"
      by (cases "get_ia_na_addr_code (rd_options data)") auto
    from b have d: "socket_delivered data" by simp
    from SavePacket_usable [OF d g, of e "duid_filled e c"]
    have u: "ia_addr (DHCPv6ClientSavePacket e (duid_filled e c) data) = Some ad"
      "lease_start (lease (DHCPv6ClientSavePacket e (duid_filled e c) data)) = current_time e"
      "lease_valid_lifetime (lease (DHCPv6ClientSavePacket e (duid_filled e c) data)) \<noteq> 0"
      by auto
    from b have nd: "\<not> reported_duplicated e (DHCPv6OptionIAADDRGetAddress ad)" by simp
    note f = Bound_start_fresh [OF u nd]
    show "cstate (DHCPv6Client_Request_data e c data) = kDHCPv6ClientStateBound"
      "saved_pkt (DHCPv6Client_Request_data e c data) = Some (rd_pkt data)"
      "saved_verified (DHCPv6Client_Request_data e c data)"
      "lease_valid (lease (DHCPv6Client_Request_data e c data))"
      using f by (simp_all add: r SavePacket_saved)
  }
qed

lemma Request_data_bound:
  assumes m: "message_matches e c Func_Request data"
      and s: "DHCPv6OptionListGetStatusCode (rd_options data) = Some code"
             "code \<noteq> kDHCPv6StatusCodeNoAddrsAvail"
      and g: "get_ia_na_addr_code (rd_options data) = (Some na, Some ad, ia_code)"
             "ia_code \<noteq> kDHCPv6StatusCodeNotOnLink"
      and d: "socket_delivered data"
      and nd: "\<not> reported_duplicated e (DHCPv6OptionIAADDRGetAddress ad)"
  shows "cstate (DHCPv6Client_Request_data e c data) = kDHCPv6ClientStateBound
       \<and> saved_pkt (DHCPv6Client_Request_data e c data) = Some (rd_pkt data)
       \<and> saved_verified (DHCPv6Client_Request_data e c data)
       \<and> lease_valid (lease (DHCPv6Client_Request_data e c data))"
proof -
  have r: "DHCPv6Client_Request_data e c data
             = DHCPv6Client_Bound_start e (DHCPv6ClientSavePacket e (duid_filled e c) data)"
    using s g by (simp add: Request_data_matched [OF m])
  from SavePacket_usable [OF d g(1), of e "duid_filled e c"]
  have u: "ia_addr (DHCPv6ClientSavePacket e (duid_filled e c) data) = Some ad"
    "lease_start (lease (DHCPv6ClientSavePacket e (duid_filled e c) data)) = current_time e"
    "lease_valid_lifetime (lease (DHCPv6ClientSavePacket e (duid_filled e c) data)) \<noteq> 0"
    by auto
  from Bound_start_fresh [OF u nd] show ?thesis
    by (simp add: r SavePacket_saved)
qed

lemma example_request_client_fields:
  "cstate example_request_client = kDHCPv6ClientStateRequest"
  "transaction_id example_request_client = 0"
  "private_address example_request_client = False"
  "receive example_request_client = Some Func_Request"
  by (simp_all add: example_request_client_def SavePacket_other example_solicit_client_fields)

lemma example_reply_matches:
  "message_matches example_env example_request_client Func_Request example_reply"
  "message_matches example_env example_request_client Func_Request example_reply_noaddrs"
  by (simp_all add: message_matches_def expected_msg_type_def clientid_echoes_duid_def
        serverid_valid_def DHCPv6ClientGetDUID_def example_request_client_fields
        DHCPv6OptionListGetOptionDataAndLength_def example_reply_def example_reply_noaddrs_def
        example_message_def DHCPv6PacketGetMessageType_def DHCPv6PacketGetTransactionID_def
        be_nat_def option_codes example_env_def example_server_duid_def)

lemma example_reply_status:
  "DHCPv6OptionListGetStatusCode (rd_options example_reply) = Some kDHCPv6StatusCodeSuccess"
  "DHCPv6OptionListGetStatusCode (rd_options example_reply_noaddrs)
     = Some kDHCPv6StatusCodeSuccess"
  by (simp_all add: DHCPv6OptionListGetStatusCode_def DHCPv6OptionListGetOptionDataAndLength_def
        example_reply_def example_reply_noaddrs_def example_message_def option_codes)

lemma example_reply_delivered: "socket_delivered example_reply"
  by (simp add: socket_delivered_def example_reply_def example_message_def
        DHCPv6OptionListCreateWithPacket_def DHCPv6OptionListCreate_def
        DHCPv6OptionListParse.simps example_bytes option_codes wire_sizes be_nat_def)

lemma example_reply_noaddrs_delivered: "socket_delivered example_reply_noaddrs"
  by (simp add: socket_delivered_def example_reply_noaddrs_def example_message_def
        DHCPv6OptionListCreateWithPacket_def DHCPv6OptionListCreate_def
        DHCPv6OptionListParse.simps example_bytes option_codes wire_sizes be_nat_def)

lemma example_reply_ia:
  "get_ia_na_addr_code (rd_options example_reply)
     = (Some example_ia_na, Some example_iaaddr, kDHCPv6StatusCodeSuccess)"
proof -
  have "rd_options example_reply = rd_options example_advertise"
    by (simp add: example_reply_def example_advertise_def example_message_def)
  then show ?thesis by (simp only: example_advertise_ia)
qed

lemma example_noaddrs_nested:
  "DHCPv6OptionListCreate (drop 12 example_ia_na_noaddrs) 34
     = Some [(kDHCPv6OPTION_STATUS_CODE, [0, 2]), (kDHCPv6OPTION_IAADDR, example_iaaddr)]"
  by (simp add: DHCPv6OptionListCreate_def DHCPv6OptionListParse.simps example_bytes
        option_codes be_nat_def)

lemma example_noaddrs_ia:
  "get_ia_na_addr_code (rd_options example_reply_noaddrs)
     = (Some example_ia_na_noaddrs, Some example_iaaddr, kDHCPv6StatusCodeNoAddrsAvail)"
proof -
  have st: "DHCPv6OptionListGetStatusCode
      [(kDHCPv6OPTION_STATUS_CODE, [0, 2]), (kDHCPv6OPTION_IAADDR, example_iaaddr)]
     = Some kDHCPv6StatusCodeNoAddrsAvail"
    by (simp add: DHCPv6OptionListGetStatusCode_def DHCPv6OptionListGetOptionDataAndLength_def
          option_codes wire_sizes be_nat_def kDHCPv6StatusCodeNoAddrsAvail_def)
  have sc: "ia_addr_scan
      [(kDHCPv6OPTION_STATUS_CODE, [0, 2]), (kDHCPv6OPTION_IAADDR, example_iaaddr)] 0
     = Some example_iaaddr"
    by (simp add: ia_addr_scan_refines options_with_code_def example_iaaddr_lifetimes
          wire_sizes option_codes)
  have v: "DHCPv6OptionIA_NAGetT1 example_ia_na_noaddrs = 0"
    "DHCPv6OptionIA_NAGetT2 example_ia_na_noaddrs = 0"
    "length example_ia_na_noaddrs = 46"
    by (simp_all add: example_bytes wire_getters)
  show ?thesis
    by (simp add: get_ia_na_addr_code_def DHCPv6OptionListGetOptionDataAndLength_def
          example_reply_noaddrs_def example_message_def option_codes
          example_noaddrs_nested [unfolded option_codes] sc [unfolded option_codes]
          st [unfolded option_codes] v DHCPv6OptionIA_NA_MIN_LENGTH_def)
qed

lemma example_not_duplicated: "\<not> reported_duplicated example_env a"
  by (simp add: reported_duplicated_def example_env_def)

lemma example_status_values:
  "kDHCPv6StatusCodeSuccess \<noteq> kDHCPv6StatusCodeNoAddrsAvail"
  "kDHCPv6StatusCodeSuccess \<noteq> kDHCPv6StatusCodeNotOnLink"
  "kDHCPv6StatusCodeNoAddrsAvail \<noteq> kDHCPv6StatusCodeNotOnLink"
  by (simp_all add: kDHCPv6StatusCodeSuccess_def kDHCPv6StatusCodeNoAddrsAvail_def
        kDHCPv6StatusCodeNotOnLink_def)

theorem Request_reply_witness:
  "message_matches example_env example_request_client Func_Request example_reply
   \<and> DHCPv6OptionListGetStatusCode (rd_options example_reply) = Some kDHCPv6StatusCodeSuccess
   \<and> get_ia_na_addr_code (rd_options example_reply)
       = (Some example_ia_na, Some example_iaaddr, kDHCPv6StatusCodeSuccess)
   \<and> socket_delivered example_reply
   \<and> cstate (DHCPv6Client_Request_data example_env example_request_client example_reply)
       = kDHCPv6ClientStateBound
   \<and> saved_pkt (DHCPv6Client_Request_data example_env example_request_client example_reply)
       = Some (rd_pkt example_reply)"
  using Request_reply_precedence [OF example_reply_matches(1)]
  by (auto simp add: example_reply_matches example_reply_status example_reply_ia
        example_reply_delivered example_not_duplicated example_status_values)

text \<open>
  Against claim C5 as stated: a matching REPLY whose IA_NA carries a STATUS_CODE
  NoAddrsAvail next to a usable IAADDR is not dropped. The client saves it and enters Bound.
\<close>

theorem Request_ia_na_noaddrs_counterexample:
  "message_matches example_env example_request_client Func_Request example_reply_noaddrs
   \<and> cstate example_request_client = kDHCPv6ClientStateRequest
   \<and> DHCPv6OptionListGetStatusCode (rd_options example_reply_noaddrs)
       = Some kDHCPv6StatusCodeSuccess
   \<and> snd (snd (get_ia_na_addr_code (rd_options example_reply_noaddrs)))
       = kDHCPv6StatusCodeNoAddrsAvail
   \<and> cstate (DHCPv6Client_Request_data example_env example_request_client
               example_reply_noaddrs) = kDHCPv6ClientStateBound
   \<and> saved_pkt (DHCPv6Client_Request_data example_env example_request_client
                  example_reply_noaddrs) = Some (rd_pkt example_reply_noaddrs)"
  using Request_data_bound [OF example_reply_matches(2) example_reply_status(2)
          example_status_values(1) example_noaddrs_ia example_status_values(3)
          example_reply_noaddrs_delivered example_not_duplicated]
  by (simp add: example_reply_matches example_reply_status example_noaddrs_ia
        example_request_client_fields)

subsection \<open>The information handed out\<close>







end
